theory Spec2Isabelle
  imports Main "HOL-Library.AList"
begin

section \<open>Python values, dictionaries and exceptions\<close>

text \<open>
  The records the sync engines move around are Python dictionaries from field names to
  dynamically typed values. The values that psycopg2 and pymongo hand over are modelled by
  a closed datatype. A \<open>Decimal\<close> is its coefficient and decimal exponent, a
  \<open>float\<close> its mantissa and binary exponent (the finite ones; nothing below computes with them).

  A \<open>datetime\<close> is either naive (no \<open>tzinfo\<close>: \<open>datetime.utcnow()\<close>, a \<open>timestamp\<close>
  column, every value pymongo returns from a client without \<open>tz_aware\<close>) or aware
  (\<open>datetime.now(timezone.utc)\<close>, a \<open>timestamptz\<close> column, a parsed string with an offset).
  Either carries an integer number of microseconds: the wall-clock reading of a naive value,
  the instant of an aware one.
\<close>

datatype datetime = Naive int | Aware int

text \<open>
  \<open>a >= b\<close> on two \<open>datetime\<close> values: Python orders two naive values and two aware
  values, and raises \<open>TypeError\<close> on a naive value against an aware one.
\<close>

datatype exn =
    KeyError string
  | ValueError string
  | TypeError string
  | AttributeError string
  | StoreError string

fun datetime_ge :: "datetime \<Rightarrow> datetime \<Rightarrow> exn + bool" where
  "datetime_ge (Naive a) (Naive b) = Inr (a \<ge> b)"
| "datetime_ge (Aware a) (Aware b) = Inr (a \<ge> b)"
| "datetime_ge a b =
     Inl (TypeError (''can'' @ [CHR 0x27] @ ''t compare offset-naive and offset-aware datetimes''))"

datatype pyval =
    PNone
  | PBool bool
  | PInt int
  | PStr string
  | PBytes string
  | PMemoryview string
  | PDecimal int int
  | PFloat int int
  | PDatetime datetime
  | PObjectId string

text \<open>A Python \<open>dict\<close> with string keys: an association list in insertion order.\<close>

type_synonym pydict = "(string \<times> pyval) list"

text \<open>Truthiness of a value, as \<open>bool(v)\<close>, \<open>if v\<close>, \<open>a or b\<close> use it.\<close>

fun truthy :: "pyval \<Rightarrow> bool" where
  "truthy PNone = False"
| "truthy (PBool b) = b"
| "truthy (PInt i) = (i \<noteq> 0)"
| "truthy (PStr s) = (s \<noteq> [])"
| "truthy (PBytes s) = (s \<noteq> [])"
| "truthy (PMemoryview s) = (s \<noteq> [])"
| "truthy (PDecimal c e) = (c \<noteq> 0)"
| "truthy (PFloat m e) = (m \<noteq> 0)"
| "truthy (PDatetime t) = True"
| "truthy (PObjectId s) = True"

definition py_or :: "pyval \<Rightarrow> pyval \<Rightarrow> pyval" where
  "py_or a b = (if truthy a then a else b)"

text \<open>\<open>d.get(k)\<close>: the value, or \<open>None\<close> when the key is absent.\<close>

definition dict_get :: "pydict \<Rightarrow> string \<Rightarrow> pyval" where
  "dict_get d k = (case map_of d k of None \<Rightarrow> PNone | Some v \<Rightarrow> v)"

text \<open>\<open>k in d\<close>.\<close>

definition dict_has :: "pydict \<Rightarrow> string \<Rightarrow> bool" where
  "dict_has d k = (map_of d k \<noteq> None)"

text \<open>\<open>d[k]\<close>, which raises \<open>KeyError\<close> on an absent key.\<close>

definition dict_item :: "pydict \<Rightarrow> string \<Rightarrow> exn + pyval" where
  "dict_item d k = (case map_of d k of None \<Rightarrow> Inl (KeyError k) | Some v \<Rightarrow> Inr v)"

text \<open>\<open>d[k] = v\<close>: replaces the value in place, or appends a new key at the end.\<close>

definition dict_set :: "pydict \<Rightarrow> string \<Rightarrow> pyval \<Rightarrow> pydict" where
  "dict_set d k v = AList.update k v d"

text \<open>\<open>d.pop(k, None)\<close>, the dictionary that is left.\<close>

definition dict_pop :: "pydict \<Rightarrow> string \<Rightarrow> pydict" where
  "dict_pop d k = AList.delete k d"

section \<open>sync.py: ConflictResolver\<close>

definition STRATEGIES :: "string list" where
  "STRATEGIES = [''latest_wins'', ''postgres_priority'', ''mongo_priority'', ''source_wins'']"

text \<open>
  \<open>ConflictResolver.__init__\<close>: the strategy the resolver keeps, and the warnings it
  logs. The constructor has no \<open>raise\<close>.
\<close>

definition ConflictResolver_init :: "string \<Rightarrow> string \<times> string list" where
  "ConflictResolver_init strategy =
     (if strategy \<notin> set STRATEGIES
      then (''latest_wins'',
            [''Unknown strategy '' @ [CHR 0x27] @ strategy @ [CHR 0x27] @ '', using ''
               @ [CHR 0x27] @ ''latest_wins'' @ [CHR 0x27]])
      else (strategy, []))"

text \<open>\<open>val.replace('Z', '+00:00')\<close>.\<close>

definition replace_Z :: "string \<Rightarrow> string" where
  "replace_Z s = concat (map (\<lambda>c. if c = CHR ''Z'' then ''+00:00'' else [c]) s)"

text \<open>
  \<open>ConflictResolver._get_timestamp\<close>, as the loop over the field names. The parameter
  \<open>fromisoformat\<close> is \<open>datetime.fromisoformat\<close>: \<open>None\<close> stands for its \<open>ValueError\<close>,
  which the source catches and passes over.
\<close>

fun get_timestamp_loop ::
  "(string \<Rightarrow> datetime option) \<Rightarrow> pydict \<Rightarrow> string list \<Rightarrow> datetime option" where
  "get_timestamp_loop fromisoformat doc [] = None"
| "get_timestamp_loop fromisoformat doc (field # rest) =
     (case map_of doc field of
        None \<Rightarrow> get_timestamp_loop fromisoformat doc rest
      | Some val \<Rightarrow>
          (case val of
             PDatetime t \<Rightarrow> Some t
           | PStr s \<Rightarrow>
               (case fromisoformat (replace_Z s) of
                  Some t \<Rightarrow> Some t
                | None \<Rightarrow> get_timestamp_loop fromisoformat doc rest)
           | _ \<Rightarrow> get_timestamp_loop fromisoformat doc rest))"

definition get_timestamp :: "(string \<Rightarrow> datetime option) \<Rightarrow> pydict \<Rightarrow> datetime option" where
  "get_timestamp fromisoformat doc =
     get_timestamp_loop fromisoformat doc
       [''updated_at'', ''updatedAt'', ''modified_at'', ''modifiedAt'', ''_updated'']"

text \<open>
  \<open>ConflictResolver.resolve\<close>: the document to write, or \<open>None\<close> to skip, or the
  \<open>TypeError\<close> that \<open>source_time >= target_time\<close> raises on a naive timestamp against an
  aware one. The first argument after the parser is \<open>self.strategy\<close>.
\<close>

definition resolve ::
  "(string \<Rightarrow> datetime option) \<Rightarrow> string \<Rightarrow> pydict \<Rightarrow> pydict option \<Rightarrow> string
     \<Rightarrow> exn + pydict option" where
  "resolve fromisoformat strategy source_doc target_doc source_type =
     (case target_doc of
        None \<Rightarrow> Inr (Some source_doc)
      | Some target \<Rightarrow>
          if strategy = ''source_wins'' then Inr (Some source_doc)
          else if strategy = ''postgres_priority'' then
            Inr (if source_type = ''postgres'' then Some source_doc else None)
          else if strategy = ''mongo_priority'' then
            Inr (if source_type = ''mongo'' then Some source_doc else None)
          else if strategy = ''latest_wins'' then
            (case (get_timestamp fromisoformat source_doc, get_timestamp fromisoformat target) of
               (None, None) \<Rightarrow> Inr (Some source_doc)
             | (None, Some target_time) \<Rightarrow> Inr None
             | (Some source_time, None) \<Rightarrow> Inr (Some source_doc)
             | (Some source_time, Some target_time) \<Rightarrow>
                 (case datetime_ge source_time target_time of
                    Inl e \<Rightarrow> Inl e
                  | Inr later \<Rightarrow> Inr (if later then Some source_doc else None)))
          else Inr (Some source_doc))"

section \<open>sync_engine.py: SyncEngine._resolve_conflict\<close>

definition SYNC_METADATA_FIELD :: string where
  "SYNC_METADATA_FIELD = ''_sync_updated_at''"

text \<open>
  \<open>x if isinstance(x, datetime) else datetime.fromisoformat(str(x))\<close>; \<open>py_str\<close> is
  Python's \<open>str\<close> on a value.
\<close>

definition as_datetime ::
  "(string \<Rightarrow> datetime option) \<Rightarrow> (pyval \<Rightarrow> string) \<Rightarrow> pyval \<Rightarrow> exn + datetime" where
  "as_datetime fromisoformat py_str x =
     (case x of
        PDatetime t \<Rightarrow> Inr t
      | _ \<Rightarrow> (case fromisoformat (py_str x) of
                None \<Rightarrow> Inl (ValueError (py_str x))
              | Some t \<Rightarrow> Inr t))"

definition updated_of :: "pydict \<Rightarrow> pyval" where
  "updated_of row = py_or (dict_get row SYNC_METADATA_FIELD) (dict_get row ''updated_at'')"

text \<open>
  \<open>SyncEngine._resolve_conflict\<close>: the winner (\<open>'pg'\<close>, \<open>'mongo'\<close> or \<open>'skip'\<close>) with the
  resolved data, or the exception of the timestamp parser, or the \<open>TypeError\<close> that
  \<open>pg_time >= mongo_time\<close> raises on a naive timestamp against an aware one.
\<close>

definition SyncEngine_resolve_conflict ::
  "(string \<Rightarrow> datetime option) \<Rightarrow> (pyval \<Rightarrow> string) \<Rightarrow> string \<Rightarrow> pydict \<Rightarrow> pydict
     \<Rightarrow> exn + (string \<times> pydict)" where
  "SyncEngine_resolve_conflict fromisoformat py_str strategy pg_row mongo_doc =
     (let pg_updated = updated_of pg_row;
          mongo_updated = updated_of mongo_doc
      in if strategy = ''source_wins'' then Inr (''pg'', pg_row)
         else if strategy = ''target_wins'' then Inr (''mongo'', mongo_doc)
         else if strategy = ''latest_wins'' then
           (if truthy pg_updated \<and> truthy mongo_updated then
              (case as_datetime fromisoformat py_str pg_updated of
                 Inl e \<Rightarrow> Inl e
               | Inr pg_time \<Rightarrow>
                   (case as_datetime fromisoformat py_str mongo_updated of
                      Inl e \<Rightarrow> Inl e
                    | Inr mongo_time \<Rightarrow>
                        (case datetime_ge pg_time mongo_time of
                           Inl e \<Rightarrow> Inl e
                         | Inr later \<Rightarrow>
                             if later then Inr (''pg'', pg_row) else Inr (''mongo'', mongo_doc))))
            else if truthy pg_updated then Inr (''pg'', pg_row)
            else if truthy mongo_updated then Inr (''mongo'', mongo_doc)
            else Inr (''pg'', pg_row))
         else Inr (''skip'', []))"

section \<open>Record conversion\<close>

subsection \<open>sequential sync_engine.py: SyncEngine._convert_for_mongo, _convert_for_postgres\<close>

text \<open>
  \<open>now\<close> is the value of \<open>datetime.utcnow()\<close>. The loop of \<open>_convert_for_mongo\<close> over the
  items stores each \<open>datetime\<close> value back under its own key and so changes nothing.
\<close>

definition SeqSyncEngine_convert_for_mongo :: "int \<Rightarrow> pydict \<Rightarrow> string \<Rightarrow> pydict" where
  "SeqSyncEngine_convert_for_mongo now record pk_col =
     (let doc = record;
          doc = (if pk_col \<noteq> ''_id'' \<and> dict_has doc pk_col
                 then dict_set (dict_pop doc pk_col) ''_id'' (dict_get doc pk_col)
                 else doc);
          doc = dict_set doc ''_sync_source'' (PStr ''postgres'');
          doc = dict_set doc ''_sync_at'' (PDatetime (Naive now))
      in doc)"

definition SeqSyncEngine_convert_for_postgres :: "pydict \<Rightarrow> string \<Rightarrow> pydict" where
  "SeqSyncEngine_convert_for_postgres doc pk_col =
     (let record = doc;
          record = (if dict_has record ''_id''
                    then dict_set (dict_pop record ''_id'') pk_col (dict_get record ''_id'')
                    else record);
          record = dict_pop record ''_sync_source'';
          record = dict_pop record ''_sync_at''
      in record)"

subsection \<open>datasync/datasync/sync.py: DataSync._convert_pg_to_mongo, _convert_mongo_to_pg\<close>

text \<open>The loop over \<open>record.items()\<close>, with the document built so far.\<close>

fun PkgDataSync_convert_pg_to_mongo_loop :: "pydict \<Rightarrow> pydict \<Rightarrow> pydict" where
  "PkgDataSync_convert_pg_to_mongo_loop [] doc = doc"
| "PkgDataSync_convert_pg_to_mongo_loop ((key, val) # items) doc =
     PkgDataSync_convert_pg_to_mongo_loop items
       (let doc = (if key = ''id'' then dict_set doc ''_pg_id'' val else doc)
        in dict_set doc key val)"

definition PkgDataSync_convert_pg_to_mongo :: "int \<Rightarrow> pydict \<Rightarrow> pydict" where
  "PkgDataSync_convert_pg_to_mongo now record =
     dict_set (PkgDataSync_convert_pg_to_mongo_loop record []) ''_synced_at'' (PDatetime (Naive now))"

text \<open>\<open>key.startswith('_')\<close>.\<close>

definition startswith_underscore :: "string \<Rightarrow> bool" where
  "startswith_underscore key = (case key of [] \<Rightarrow> False | c # cs \<Rightarrow> c = CHR ''_'')"

fun PkgDataSync_convert_mongo_to_pg_loop :: "pydict \<Rightarrow> pydict \<Rightarrow> pydict" where
  "PkgDataSync_convert_mongo_to_pg_loop [] record = record"
| "PkgDataSync_convert_mongo_to_pg_loop ((key, val) # items) record =
     PkgDataSync_convert_mongo_to_pg_loop items
       (if startswith_underscore key
        then (if key = ''_pg_id'' then dict_set record ''id'' val else record)
        else dict_set record key val)"

text \<open>\<open>return record if record else None\<close>: an empty record is \<open>None\<close>.\<close>

definition PkgDataSync_convert_mongo_to_pg :: "pydict \<Rightarrow> pydict option" where
  "PkgDataSync_convert_mongo_to_pg document =
     (let record = PkgDataSync_convert_mongo_to_pg_loop document []
      in if record \<noteq> [] then Some record else None)"

text \<open>The two fields from which \<open>_convert_mongo_to_pg\<close> fills \<open>id\<close>.\<close>

definition id_field :: "string \<times> pyval \<Rightarrow> bool" where
  "id_field kv = (fst kv = ''id'' \<or> fst kv = ''_pg_id'')"

section \<open>sync.py: DataSync.sync_postgres_to_mongo\<close>

text \<open>
  \<open>SyncStats\<close> of sync.py, without its two clock readings \<open>started_at\<close> and
  \<open>completed_at\<close>.
\<close>

record SyncStats =
  table :: string
  direction :: string
  rows_processed :: nat
  rows_inserted :: nat
  rows_updated :: nat
  rows_skipped :: nat
  errors :: "string list"

text \<open>A table configuration: the dictionary with the keys \<open>name\<close>, \<open>collection\<close>, \<open>primary_key\<close>.\<close>

record table_config =
  name :: string
  collection :: string
  primary_key :: string

text \<open>
  The connection handlers of db.py as the engine sees them: each call returns its value or
  raises. The PostgreSQL side is only read here; the MongoDB side has a state \<open>'m\<close>, and
  \<open>upsert_batch\<close> returns the state it leaves behind together with the exception it raised,
  if any (an unordered bulk write that fails may have written some documents).
\<close>

record 'm db =
  get_row_count :: "string \<Rightarrow> exn + int"
  fetch_batch :: "string \<Rightarrow> string \<Rightarrow> int \<Rightarrow> int \<Rightarrow> exn + pydict list"
  get_document :: "'m \<Rightarrow> string \<Rightarrow> string \<Rightarrow> pyval \<Rightarrow> exn + pydict option"
  upsert_batch :: "'m \<Rightarrow> string \<Rightarrow> pydict list \<Rightarrow> string \<Rightarrow> exn option \<times> 'm"

text \<open>\<open>str(e)\<close> of an exception.\<close>

fun exn_str :: "exn \<Rightarrow> string" where
  "exn_str (KeyError k) = [CHR 0x27] @ k @ [CHR 0x27]"
| "exn_str (ValueError m) = m"
| "exn_str (TypeError m) = m"
| "exn_str (AttributeError m) = m"
| "exn_str (StoreError m) = m"

text \<open>
  \<open>DataSync._convert_pg_to_mongo\<close> of sync.py; \<open>to_float\<close> is Python's \<open>float\<close> on a
  \<open>Decimal\<close>.
\<close>

fun DataSync_convert_value :: "(int \<Rightarrow> int \<Rightarrow> pyval) \<Rightarrow> pyval \<Rightarrow> pyval" where
  "DataSync_convert_value to_float (PDecimal c e) = to_float c e"
| "DataSync_convert_value to_float (PBytes s) = PBytes s"
| "DataSync_convert_value to_float (PMemoryview s) = PBytes s"
| "DataSync_convert_value to_float PNone = PNone"
| "DataSync_convert_value to_float v = v"

fun DataSync_convert_pg_to_mongo_loop :: "(int \<Rightarrow> int \<Rightarrow> pyval) \<Rightarrow> pydict \<Rightarrow> pydict \<Rightarrow> pydict" where
  "DataSync_convert_pg_to_mongo_loop to_float [] converted = converted"
| "DataSync_convert_pg_to_mongo_loop to_float ((key, val) # items) converted =
     DataSync_convert_pg_to_mongo_loop to_float items
       (dict_set converted key (DataSync_convert_value to_float val))"

definition DataSync_convert_pg_to_mongo :: "(int \<Rightarrow> int \<Rightarrow> pyval) \<Rightarrow> pydict \<Rightarrow> pydict" where
  "DataSync_convert_pg_to_mongo to_float row = DataSync_convert_pg_to_mongo_loop to_float row []"

text \<open>
  What the engine of sync.py is configured with: the Python library functions it calls,
  the resolver's strategy and the batch size.
\<close>

record sync_env =
  env_fromisoformat :: "string \<Rightarrow> datetime option"
  env_to_float :: "int \<Rightarrow> int \<Rightarrow> pyval"
  env_strategy :: string
  env_batch_size :: int

text \<open>
  The \<open>for row in batch\<close> loop of \<open>sync_postgres_to_mongo\<close>, on the pair
  \<open>(documents_to_write, stats)\<close>. An exception leaves the loop with the counters as they
  are at that moment.
\<close>

fun process_batch ::
  "sync_env \<Rightarrow> 'm db \<Rightarrow> 'm \<Rightarrow> table_config \<Rightarrow> pydict list \<Rightarrow> pydict list \<times> SyncStats
     \<Rightarrow> exn option \<times> pydict list \<times> SyncStats" where
  "process_batch env ops m cfg [] (documents_to_write, stats) = (None, documents_to_write, stats)"
| "process_batch env ops m cfg (row # batch) (documents_to_write, stats) =
     (let doc = DataSync_convert_pg_to_mongo (env_to_float env) row
      in case dict_item doc (primary_key cfg) of
           Inl e \<Rightarrow> (Some e, documents_to_write, stats)
         | Inr key_value \<Rightarrow>
             (case get_document ops m (collection cfg) (primary_key cfg) key_value of
                Inl e \<Rightarrow> (Some e, documents_to_write, stats)
              | Inr existing \<Rightarrow>
                  (case resolve (env_fromisoformat env) (env_strategy env) doc existing ''postgres'' of
                     Inl e \<Rightarrow> (Some e, documents_to_write, stats)
                   | Inr (Some resolved) \<Rightarrow>
                       process_batch env ops m cfg batch
                         (documents_to_write @ [resolved],
                          if existing = None
                          then stats\<lparr>rows_inserted := rows_inserted stats + 1\<rparr>
                          else stats\<lparr>rows_updated := rows_updated stats + 1\<rparr>)
                   | Inr None \<Rightarrow>
                       process_batch env ops m cfg batch
                         (documents_to_write, stats\<lparr>rows_skipped := rows_skipped stats + 1\<rparr>))))"

text \<open>
  The \<open>while offset < total_rows\<close> loop. The result is \<open>None\<close> when the loop does not
  end; otherwise the exception that left the loop (if any), the MongoDB state, the
  statistics, and the batches fetched so far. The list of batches is not kept by the
  source: it is recorded here to state what the pagination fetches.
\<close>

partial_function (option) sync_loop ::
  "sync_env \<Rightarrow> 'm db \<Rightarrow> table_config \<Rightarrow> int \<Rightarrow> int \<Rightarrow> 'm \<Rightarrow> SyncStats \<Rightarrow> pydict list list
     \<Rightarrow> (exn option \<times> 'm \<times> SyncStats \<times> pydict list list) option" where
  "sync_loop env ops cfg total_rows offset m stats pages =
     (if offset < total_rows then
        (case fetch_batch ops (name cfg) (primary_key cfg) (env_batch_size env) offset of
           Inl e \<Rightarrow> Some (Some e, m, stats, pages)
         | Inr batch \<Rightarrow>
             if batch = [] then Some (None, m, stats, pages)
             else
               (case process_batch env ops m cfg batch ([], stats) of
                  (Some e, documents_to_write, stats1) \<Rightarrow> Some (Some e, m, stats1, pages @ [batch])
                | (None, documents_to_write, stats1) \<Rightarrow>
                    (case (if documents_to_write \<noteq> []
                           then upsert_batch ops m (collection cfg) documents_to_write (primary_key cfg)
                           else (None, m)) of
                       (Some e, m1) \<Rightarrow> Some (Some e, m1, stats1, pages @ [batch])
                     | (None, m1) \<Rightarrow>
                         sync_loop env ops cfg total_rows (offset + env_batch_size env) m1
                           (stats1\<lparr>rows_processed := rows_processed stats1 + length batch\<rparr>)
                           (pages @ [batch]))))
      else Some (None, m, stats, pages))"

text \<open>
  \<open>DataSync.sync_postgres_to_mongo\<close>: the statistics it returns, the MongoDB state it
  leaves and the batches it fetched; \<open>None\<close> when the call does not return.
\<close>

definition sync_postgres_to_mongo ::
  "sync_env \<Rightarrow> 'm db \<Rightarrow> table_config \<Rightarrow> 'm \<Rightarrow> (SyncStats \<times> 'm \<times> pydict list list) option" where
  "sync_postgres_to_mongo env ops cfg m =
     (let stats = \<lparr>table = name cfg, direction = ''postgres_to_mongo'', rows_processed = 0,
                   rows_inserted = 0, rows_updated = 0, rows_skipped = 0, errors = []\<rparr>
      in case get_row_count ops (name cfg) of
           Inl e \<Rightarrow>
             Some (stats\<lparr>errors := errors stats @ [''Error syncing '' @ name cfg @ '': '' @ exn_str e]\<rparr>,
                   m, [])
         | Inr total_rows \<Rightarrow>
             (case sync_loop env ops cfg total_rows 0 m stats [] of
                None \<Rightarrow> None
              | Some (None, m1, stats1, pages) \<Rightarrow> Some (stats1, m1, pages)
              | Some (Some e, m1, stats1, pages) \<Rightarrow>
                  Some (stats1\<lparr>errors := errors stats1 @ [''Error syncing '' @ name cfg @ '': '' @ exn_str e]\<rparr>,
                        m1, pages)))"

text \<open>
  db.py, \<open>PostgresConnection.fetch_batch\<close> and \<open>get_row_count\<close>, on a database given by the
  rows of each table in the order of its primary key: the query
  \<open>SELECT * ... ORDER BY pk LIMIT batch_size OFFSET offset\<close> and the query \<open>SELECT COUNT(*)\<close>.
  PostgreSQL rejects a negative \<open>LIMIT\<close> or \<open>OFFSET\<close>.
\<close>

definition PostgresConnection_fetch_batch ::
  "(string \<Rightarrow> pydict list) \<Rightarrow> string \<Rightarrow> string \<Rightarrow> int \<Rightarrow> int \<Rightarrow> exn + pydict list" where
  "PostgresConnection_fetch_batch tables tbl pk batch_size offset =
     (if batch_size < 0 then Inl (StoreError ''LIMIT must not be negative'')
      else if offset < 0 then Inl (StoreError ''OFFSET must not be negative'')
      else Inr (take (nat batch_size) (drop (nat offset) (tables tbl))))"

definition PostgresConnection_get_row_count :: "(string \<Rightarrow> pydict list) \<Rightarrow> string \<Rightarrow> exn + int" where
  "PostgresConnection_get_row_count tables tbl = Inr (int (length (tables tbl)))"



text \<open>
  An in-memory document store that stands for pymongo behind db.py's \<open>MongoConnection\<close>:
  a database is the list of documents of each collection. \<open>find_one({pk: v})\<close> returns the
  first match (a \<open>None\<close> value also matches a missing field); \<open>UpdateOne({pk: v}, {'$set':
  doc}, upsert=True)\<close> sets the fields of \<open>doc\<close> on the first match or inserts \<open>doc\<close>. The
  \<open>_id\<close> that the store gives an inserted document is left out.
\<close>

definition mongo_matches :: "string \<Rightarrow> pyval \<Rightarrow> pydict \<Rightarrow> bool" where
  "mongo_matches k v d = (map_of d k = Some v \<or> (v = PNone \<and> map_of d k = None))"

definition MongoConnection_get_document ::
  "(string \<Rightarrow> pydict list) \<Rightarrow> string \<Rightarrow> string \<Rightarrow> pyval \<Rightarrow> exn + pydict option" where
  "MongoConnection_get_document database coll pk key_value =
     Inr (find (mongo_matches pk key_value) (database coll))"

fun set_fields :: "pydict \<Rightarrow> pydict \<Rightarrow> pydict" where
  "set_fields d [] = d"
| "set_fields d ((k, v) # rest) = set_fields (dict_set d k v) rest"

fun update_one_upsert :: "string \<Rightarrow> pyval \<Rightarrow> pydict \<Rightarrow> pydict list \<Rightarrow> pydict list" where
  "update_one_upsert k v doc [] = [doc]"
| "update_one_upsert k v doc (d # ds) =
     (if mongo_matches k v d then set_fields d doc # ds else d # update_one_upsert k v doc ds)"

text \<open>
  \<open>MongoConnection.upsert_batch\<close>: building the operations reads \<open>doc[primary_key]\<close> of
  every document before anything is written.
\<close>

definition MongoConnection_upsert_batch ::
  "(string \<Rightarrow> pydict list) \<Rightarrow> string \<Rightarrow> pydict list \<Rightarrow> string
     \<Rightarrow> exn option \<times> (string \<Rightarrow> pydict list)" where
  "MongoConnection_upsert_batch database coll documents pk =
     (if documents = [] then (None, database)
      else if list_ex (\<lambda>doc. \<not> dict_has doc pk) documents then (Some (KeyError pk), database)
      else (None, database (coll :=
              fold (\<lambda>doc c. update_one_upsert pk (dict_get doc pk) doc c) documents (database coll))))"

text \<open>db.py on a PostgreSQL database \<open>tables\<close>, with the in-memory document store.\<close>

definition db_py :: "(string \<Rightarrow> pydict list) \<Rightarrow> (string \<Rightarrow> pydict list) db" where
  "db_py tables =
     \<lparr>get_row_count = PostgresConnection_get_row_count tables,
      fetch_batch = PostgresConnection_fetch_batch tables,
      get_document = MongoConnection_get_document,
      upsert_batch = MongoConnection_upsert_batch\<rparr>"

text \<open>The sum of the three outcome counters.\<close>

definition counted :: "SyncStats \<Rightarrow> nat" where
  "counted stats = rows_inserted stats + rows_updated stats + rows_skipped stats"

text \<open>A configuration, a table configuration and a table of \<open>n\<close> rows, for concrete runs.\<close>

definition example_env :: "int \<Rightarrow> sync_env" where
  "example_env L = \<lparr>env_fromisoformat = (\<lambda>s. None), env_to_float = (\<lambda>c e. PFloat c e),
     env_strategy = ''latest_wins'', env_batch_size = L\<rparr>"

definition example_cfg :: table_config where
  "example_cfg = \<lparr>name = ''users'', collection = ''users'', primary_key = ''id''\<rparr>"






section \<open>The paged read loop of the engines\<close>

text \<open>
  The engines other than sync.py read a table or a collection with one loop shape:
  \<^verbatim>\<open>
  offset = 0
  while True:
      batch = fetch(offset)
      if not batch: break
      body(batch)
      offset += step(batch)
  \<close>
  \<open>fetch\<close> and \<open>body\<close> may raise; \<open>step\<close> is \<open>len(batch)\<close> or the batch size. The result is
  \<open>None\<close> when the loop does not end; otherwise the exception that left the loop (if any),
  the state, and the batches fetched. The list of batches is not kept by the sources: it
  is recorded to state what a loop has read.
\<close>

partial_function (option) paged_loop ::
  "(int \<Rightarrow> 's \<Rightarrow> exn + 'a list) \<Rightarrow> ('a list \<Rightarrow> 's \<Rightarrow> exn option \<times> 's) \<Rightarrow> ('a list \<Rightarrow> int)
     \<Rightarrow> int \<Rightarrow> 's \<Rightarrow> 'a list list \<Rightarrow> (exn option \<times> 's \<times> 'a list list) option" where
  "paged_loop fetch body step offset s pages =
     (case fetch offset s of
        Inl e \<Rightarrow> Some (Some e, s, pages)
      | Inr batch \<Rightarrow>
          if batch = [] then Some (None, s, pages)
          else (case body batch s of
                  (Some e, s1) \<Rightarrow> Some (Some e, s1, pages @ [batch])
                | (None, s1) \<Rightarrow> paged_loop fetch body step (offset + step batch) s1 (pages @ [batch])))"

declare paged_loop.simps [code]

section \<open>sequential sync_engine.py: SyncEngine\<close>

record SyncResult =
  records_synced :: nat
  records_skipped :: nat
  conflicts_resolved :: nat
  result_errors :: "string list"

text \<open>
  The database calls of the sequential engine, on a PostgreSQL state \<open>'p\<close> and a MongoDB
  state \<open>'m\<close>. \<open>_get_primary_key\<close>, \<open>_fetch_postgres_batch\<close> and \<open>_upsert_to_postgres\<close> take
  their connection from the pool before their \<open>try\<close>, so each of them can raise;
  \<open>_upsert_to_mongo\<close> and \<open>_upsert_to_postgres\<close> catch what the store raises and return a
  boolean.
\<close>

record ('p, 'm) seq_db =
  seq_get_primary_key :: "'p \<Rightarrow> string \<Rightarrow> exn + string"
  seq_select :: "'p \<Rightarrow> string \<Rightarrow> string \<Rightarrow> int \<Rightarrow> int \<Rightarrow> exn + pydict list"
  seq_find :: "'m \<Rightarrow> string \<Rightarrow> int \<Rightarrow> int \<Rightarrow> exn + pydict list"
  seq_upsert_to_mongo :: "'m \<Rightarrow> string \<Rightarrow> pydict \<Rightarrow> bool \<times> 'm"
  seq_upsert_to_postgres :: "'p \<Rightarrow> string \<Rightarrow> pydict \<Rightarrow> string \<Rightarrow> exn + bool \<times> 'p"

text \<open>
  What the sequential engine is configured with: \<open>config.sync.batch_size\<close>,
  \<open>config.sync.direction\<close>, the clock reading \<open>datetime.utcnow()\<close> and Python's \<open>str\<close>.
\<close>

record seq_config =
  seq_batch_size :: int
  seq_direction :: string
  seq_now :: int
  seq_str :: "pyval \<Rightarrow> string"

text \<open>
  \<open>_fetch_mongo_batch\<close>: \<open>find().skip(skip).limit(batch_size)\<close>, then every \<open>_id\<close> that is an
  \<open>ObjectId\<close> becomes its string.
\<close>

definition id_to_str :: "pydict \<Rightarrow> pydict" where
  "id_to_str doc =
     (case map_of doc ''_id'' of
        Some (PObjectId h) \<Rightarrow> dict_set doc ''_id'' (PStr h)
      | _ \<Rightarrow> doc)"

definition SeqSyncEngine_fetch_mongo_batch ::
  "('p, 'm) seq_db \<Rightarrow> seq_config \<Rightarrow> string \<Rightarrow> int \<Rightarrow> 'm \<Rightarrow> exn + pydict list" where
  "SeqSyncEngine_fetch_mongo_batch ops cfg coll skip m =
     (case seq_find ops m coll skip (seq_batch_size cfg) of
        Inl e \<Rightarrow> Inl e
      | Inr docs \<Rightarrow> Inr (map id_to_str docs))"

text \<open>
  The \<open>for record in records\<close> loop of \<open>_sync_postgres_to_mongo\<close>, on the MongoDB state
  and the result.
\<close>

fun SeqSyncEngine_sync_records ::
  "('p, 'm) seq_db \<Rightarrow> seq_config \<Rightarrow> string \<Rightarrow> string \<Rightarrow> pydict list \<Rightarrow> 'm \<times> SyncResult
     \<Rightarrow> 'm \<times> SyncResult" where
  "SeqSyncEngine_sync_records ops cfg tbl pk_col [] (m, result) = (m, result)"
| "SeqSyncEngine_sync_records ops cfg tbl pk_col (rec # records) (m, result) =
     (let doc = SeqSyncEngine_convert_for_mongo (seq_now cfg) rec pk_col
      in case seq_upsert_to_mongo ops m tbl doc of
           (True, m1) \<Rightarrow>
             SeqSyncEngine_sync_records ops cfg tbl pk_col records
               (m1, result\<lparr>records_synced := records_synced result + 1\<rparr>)
         | (False, m1) \<Rightarrow>
             SeqSyncEngine_sync_records ops cfg tbl pk_col records
               (m1, result\<lparr>result_errors := result_errors result
                   @ [''Failed to sync record '' @ seq_str cfg (dict_get rec pk_col) @ '' to MongoDB'']\<rparr>))"

text \<open>
  The \<open>for doc in docs\<close> loop of \<open>_sync_mongo_to_postgres\<close>, on the PostgreSQL state and
  the result; an exception of \<open>_upsert_to_postgres\<close> leaves the loop.
\<close>

fun SeqSyncEngine_sync_docs ::
  "('p, 'm) seq_db \<Rightarrow> seq_config \<Rightarrow> string \<Rightarrow> string \<Rightarrow> pydict list \<Rightarrow> 'p \<times> SyncResult
     \<Rightarrow> exn option \<times> 'p \<times> SyncResult" where
  "SeqSyncEngine_sync_docs ops cfg tbl pk_col [] (p, result) = (None, p, result)"
| "SeqSyncEngine_sync_docs ops cfg tbl pk_col (doc # docs) (p, result) =
     (if dict_get doc ''_sync_source'' = PStr ''postgres''
      then SeqSyncEngine_sync_docs ops cfg tbl pk_col docs
             (p, result\<lparr>records_skipped := records_skipped result + 1\<rparr>)
      else
        (let rec = SeqSyncEngine_convert_for_postgres doc pk_col
         in case seq_upsert_to_postgres ops p tbl rec pk_col of
              Inl e \<Rightarrow> (Some e, p, result)
            | Inr (True, p1) \<Rightarrow>
                SeqSyncEngine_sync_docs ops cfg tbl pk_col docs
                  (p1, result\<lparr>records_synced := records_synced result + 1\<rparr>)
            | Inr (False, p1) \<Rightarrow>
                SeqSyncEngine_sync_docs ops cfg tbl pk_col docs
                  (p1, result\<lparr>result_errors := result_errors result
                      @ [''Failed to sync document '' @ seq_str cfg (dict_get doc ''_id'')
                           @ '' to PostgreSQL'']\<rparr>)))"

text \<open>
  \<open>_sync_postgres_to_mongo\<close> and \<open>_sync_mongo_to_postgres\<close>, on the state
  \<open>((p, m), result)\<close>: the paged loop with step \<open>len(batch)\<close>.
\<close>

definition SeqSyncEngine_sync_postgres_to_mongo ::
  "('p, 'm) seq_db \<Rightarrow> seq_config \<Rightarrow> string \<Rightarrow> string \<Rightarrow> ('p \<times> 'm) \<times> SyncResult
     \<Rightarrow> (exn option \<times> (('p \<times> 'm) \<times> SyncResult) \<times> pydict list list) option" where
  "SeqSyncEngine_sync_postgres_to_mongo ops cfg tbl pk_col s =
     paged_loop
       (\<lambda>offset ((p, m), result). seq_select ops p tbl pk_col (seq_batch_size cfg) offset)
       (\<lambda>records ((p, m), result).
          (case SeqSyncEngine_sync_records ops cfg tbl pk_col records (m, result) of
             (m1, result1) \<Rightarrow> (None, ((p, m1), result1))))
       (\<lambda>records. int (length records)) 0 s []"

definition SeqSyncEngine_sync_mongo_to_postgres ::
  "('p, 'm) seq_db \<Rightarrow> seq_config \<Rightarrow> string \<Rightarrow> string \<Rightarrow> ('p \<times> 'm) \<times> SyncResult
     \<Rightarrow> (exn option \<times> (('p \<times> 'm) \<times> SyncResult) \<times> pydict list list) option" where
  "SeqSyncEngine_sync_mongo_to_postgres ops cfg tbl pk_col s =
     paged_loop
       (\<lambda>skip ((p, m), result). SeqSyncEngine_fetch_mongo_batch ops cfg tbl skip m)
       (\<lambda>docs ((p, m), result).
          (case SeqSyncEngine_sync_docs ops cfg tbl pk_col docs (p, result) of
             (e, p1, result1) \<Rightarrow> (e, ((p1, m), result1))))
       (\<lambda>docs. int (length docs)) 0 s []"

text \<open>
  The body of the \<open>try\<close> in \<open>sync_table\<close>: the two directions in turn, the second only
  when the first did not raise. \<open>None\<close> when a loop does not end.
\<close>

definition SeqSyncEngine_sync_table_body ::
  "('p, 'm) seq_db \<Rightarrow> seq_config \<Rightarrow> string \<Rightarrow> string \<Rightarrow> ('p \<times> 'm) \<times> SyncResult
     \<Rightarrow> (exn option \<times> (('p \<times> 'm) \<times> SyncResult)) option" where
  "SeqSyncEngine_sync_table_body ops cfg tbl pk_col s =
     (case (if seq_direction cfg \<in> {''postgres_to_mongo'', ''bidirectional''}
            then map_option (\<lambda>(e, s1, pages). (e, s1))
                   (SeqSyncEngine_sync_postgres_to_mongo ops cfg tbl pk_col s)
            else Some (None, s)) of
        None \<Rightarrow> None
      | Some (Some e, s1) \<Rightarrow> Some (Some e, s1)
      | Some (None, s1) \<Rightarrow>
          (if seq_direction cfg \<in> {''mongo_to_postgres'', ''bidirectional''}
           then map_option (\<lambda>(e, s2, pages). (e, s2))
                  (SeqSyncEngine_sync_mongo_to_postgres ops cfg tbl pk_col s1)
           else Some (None, s1)))"

text \<open>
  \<open>sync_table\<close>: the result of the table and the states it leaves; \<open>Inl\<close> is an exception
  that leaves \<open>sync_table\<close> (only \<open>_get_primary_key\<close>, called before the \<open>try\<close>, can raise
  one).
\<close>

definition SeqSyncEngine_sync_table ::
  "('p, 'm) seq_db \<Rightarrow> seq_config \<Rightarrow> string \<Rightarrow> 'p \<times> 'm \<Rightarrow> (exn + SyncResult \<times> ('p \<times> 'm)) option" where
  "SeqSyncEngine_sync_table ops cfg tbl db =
     (let result = \<lparr>records_synced = 0, records_skipped = 0, conflicts_resolved = 0, result_errors = []\<rparr>
      in case seq_get_primary_key ops (fst db) tbl of
           Inl e \<Rightarrow> Some (Inl e)
         | Inr pk_col \<Rightarrow>
             (case SeqSyncEngine_sync_table_body ops cfg tbl pk_col (db, result) of
                None \<Rightarrow> None
              | Some (Some e, (db1, result1)) \<Rightarrow>
                  Some (Inr (result1\<lparr>result_errors := result_errors result1
                               @ [''Error syncing '' @ tbl @ '': '' @ exn_str e]\<rparr>, db1))
              | Some (None, (db1, result1)) \<Rightarrow> Some (Inr (result1, db1))))"

text \<open>
  The loop of \<open>sync_all\<close> over the tables, with the dictionary \<open>results\<close> built so far.
\<close>

fun SeqSyncEngine_sync_all_loop ::
  "('p, 'm) seq_db \<Rightarrow> seq_config \<Rightarrow> string list \<Rightarrow> (string \<times> SyncResult) list \<times> ('p \<times> 'm)
     \<Rightarrow> (exn + (string \<times> SyncResult) list \<times> ('p \<times> 'm)) option" where
  "SeqSyncEngine_sync_all_loop ops cfg [] (results, db) = Some (Inr (results, db))"
| "SeqSyncEngine_sync_all_loop ops cfg (tbl # tables) (results, db) =
     (case SeqSyncEngine_sync_table ops cfg tbl db of
        None \<Rightarrow> None
      | Some (Inl e) \<Rightarrow> Some (Inl e)
      | Some (Inr (result, db1)) \<Rightarrow>
          SeqSyncEngine_sync_all_loop ops cfg tables (AList.update tbl result results, db1))"

text \<open>The loop-avoidance test of \<open>_sync_mongo_to_postgres\<close>: \<open>doc.get('_sync_source') == 'postgres'\<close>.\<close>

definition from_postgres :: "pydict \<Rightarrow> bool" where
  "from_postgres doc = (dict_get doc ''_sync_source'' = PStr ''postgres'')"

text \<open>A loop body run on a sequence of batches, up to its first exception.\<close>

fun run_batches :: "('a list \<Rightarrow> 's \<Rightarrow> exn option \<times> 's) \<Rightarrow> 'a list list \<Rightarrow> 's \<Rightarrow> exn option \<times> 's" where
  "run_batches body [] s = (None, s)"
| "run_batches body (batch # batches) s =
     (case body batch s of
        (Some e, s1) \<Rightarrow> (Some e, s1)
      | (None, s1) \<Rightarrow> run_batches body batches s1)"

text \<open>
  In-memory stores that stand for PostgreSQL and MongoDB behind the sequential engine: a
  database is the list of rows (documents) of each table (collection).
  \<open>INSERT ... ON CONFLICT (pk) DO UPDATE SET\<close> sets the columns of the record on the row
  with the same key or appends the record; \<open>limit(0)\<close> of pymongo is no limit;
  \<open>replace_one({'_id': id}, doc, upsert=True)\<close> replaces the document with that \<open>_id\<close> or
  inserts, and \<open>insert_one\<close> appends.
\<close>

fun sql_upsert :: "string \<Rightarrow> pydict \<Rightarrow> pydict list \<Rightarrow> pydict list" where
  "sql_upsert pk rec [] = [rec]"
| "sql_upsert pk rec (row # rows) =
     (if map_of row pk = map_of rec pk \<and> dict_has rec pk then set_fields row rec # rows
      else row # sql_upsert pk rec rows)"

fun mongo_replace_one :: "pydict \<Rightarrow> pydict list \<Rightarrow> pydict list" where
  "mongo_replace_one doc [] = [doc]"
| "mongo_replace_one doc (d # ds) =
     (if map_of d ''_id'' = map_of doc ''_id'' then doc # ds else d # mongo_replace_one doc ds)"

definition memory_seq_db :: "(string \<Rightarrow> pydict list, string \<Rightarrow> pydict list) seq_db" where
  "memory_seq_db =
     \<lparr>seq_get_primary_key = (\<lambda>p tbl. Inr ''id''),
      seq_select = (\<lambda>p tbl pk_col limit offset.
         if limit < 0 \<or> offset < 0 then Inl (StoreError ''LIMIT and OFFSET must not be negative'')
         else Inr (take (nat limit) (drop (nat offset) (p tbl)))),
      seq_find = (\<lambda>m coll skip limit.
         if skip < 0 then Inl (StoreError ''skip must be >= 0'')
         else Inr (if limit = 0 then drop (nat skip) (m coll)
                   else take (nat (abs limit)) (drop (nat skip) (m coll)))),
      seq_upsert_to_mongo = (\<lambda>m coll doc.
         (True, m (coll := (if truthy (dict_get doc ''_id'') then mongo_replace_one doc (m coll)
                            else m coll @ [doc])))),
      seq_upsert_to_postgres = (\<lambda>p tbl rec pk_col. Inr (True, p (tbl := sql_upsert pk_col rec (p tbl))))\<rparr>"

definition example_seq_config :: seq_config where
  "example_seq_config =
     \<lparr>seq_batch_size = 2, seq_direction = ''mongo_to_postgres'', seq_now = 0, seq_str = (\<lambda>v. [])\<rparr>"

definition seq_example_docs :: "string \<Rightarrow> pydict list" where
  "seq_example_docs coll =
     [[(''_id'', PInt 1), (''name'', PStr ''Ann''), (''_sync_source'', PStr ''postgres'')],
      [(''_id'', PInt 2), (''name'', PStr ''Bob'')],
      [(''_id'', PInt 3), (''_sync_source'', PStr ''postgres'')]]"

definition empty_result :: SyncResult where
  "empty_result = \<lparr>records_synced = 0, records_skipped = 0, conflicts_resolved = 0, result_errors = []\<rparr>"

definition no_rows :: "string \<Rightarrow> pydict list" where
  "no_rows tbl = []"

text \<open>
  Two tables for concrete runs: the table \<open>orders\<close> has no column \<open>id\<close>, the table
  \<open>users\<close> has one row.
\<close>

definition two_tables :: "string \<Rightarrow> pydict list" where
  "two_tables tbl =
     (if tbl = ''orders'' then [[(''order_no'', PInt 7)]]
      else if tbl = ''users'' then [[(''id'', PInt 1), (''name'', PStr ''Ann'')]]
      else [])"

text \<open>A configuration with a negative batch size, which PostgreSQL rejects as a \<open>LIMIT\<close>.\<close>

definition negative_batch_config :: seq_config where
  "negative_batch_config =
     \<lparr>seq_batch_size = - 1, seq_direction = ''postgres_to_mongo'', seq_now = 0, seq_str = (\<lambda>v. [])\<rparr>"

section \<open>sync_engine.py: SyncEngine\<close>

text \<open>\<open>SyncStats\<close> of sync_engine.py (its counter \<open>errors\<close> is \<open>errors_count\<close> here), without \<open>started_at\<close>.\<close>

record EngineStats =
  pg_to_mongo :: nat
  mongo_to_pg :: nat
  conflicts :: nat
  errors_count :: nat

text \<open>
  \<open>TableMapping\<close>; its field \<open>primary_key\<close> is \<open>mapping_primary_key\<close> here. The two
  transform callbacks are \<open>None\<close> in every mapping the engine builds and are left out.
\<close>

record TableMapping =
  postgres_table :: string
  mongo_collection :: string
  mapping_primary_key :: string

text \<open>
  The database calls of the engine, on a PostgreSQL state \<open>'p\<close> and a MongoDB state \<open>'m\<close>;
  the module db they come from is not among the sources, so they are parameters:
  \<open>pg.fetch_all\<close> of the paged query, of \<open>SELECT *\<close> and of the column query, \<open>pg.execute\<close>
  of the upsert statement for a dictionary of columns, \<open>mongo.upsert\<close>, \<open>mongo.find\<close> and
  \<open>mongo.db[c].find().skip(s).limit(l)\<close>. A write returns the state it leaves and the
  exception it raised, if any.
\<close>

record ('p, 'm) engine_db =
  pg_select_page :: "'p \<Rightarrow> string \<Rightarrow> string \<Rightarrow> int \<Rightarrow> int \<Rightarrow> exn + pydict list"
  pg_select_all :: "'p \<Rightarrow> string \<Rightarrow> exn + pydict list"
  pg_columns :: "'p \<Rightarrow> string \<Rightarrow> exn + string list"
  pg_execute_upsert :: "'p \<Rightarrow> string \<Rightarrow> string \<Rightarrow> pydict \<Rightarrow> exn option \<times> 'p"
  mongo_upsert :: "'m \<Rightarrow> string \<Rightarrow> pydict \<Rightarrow> string \<Rightarrow> exn option \<times> 'm"
  mongo_find :: "'m \<Rightarrow> string \<Rightarrow> exn + pydict list"
  mongo_find_page :: "'m \<Rightarrow> string \<Rightarrow> int \<Rightarrow> int \<Rightarrow> exn + pydict list"

text \<open>
  What the engine is configured with and the Python library it calls: the clock reading
  \<open>datetime.now(timezone.utc)\<close>, \<open>datetime.isoformat\<close>, \<open>datetime.fromisoformat\<close>, \<open>str\<close>,
  and the order in which Python iterates over the set of keys.
\<close>

record engine_config =
  cfg_batch_size :: int
  cfg_conflict_resolution :: string
  cfg_sync_direction :: string
  cfg_now :: int
  cfg_isoformat :: "datetime \<Rightarrow> string"
  cfg_fromisoformat :: "string \<Rightarrow> datetime option"
  cfg_str :: "pyval \<Rightarrow> string"
  cfg_set_order :: "pyval list \<Rightarrow> pyval list"

text \<open>\<open>SyncEngine._normalize_doc\<close>, as its loop over \<open>doc.items()\<close>.\<close>

fun normalize_doc_loop :: "(datetime \<Rightarrow> string) \<Rightarrow> pydict \<Rightarrow> pydict \<Rightarrow> pydict" where
  "normalize_doc_loop isof [] result = result"
| "normalize_doc_loop isof ((k, v) # items) result =
     normalize_doc_loop isof items
       (case v of
          PObjectId h \<Rightarrow> if k = ''_id'' then result else dict_set result k (PStr h)
        | PDatetime t \<Rightarrow> dict_set result k (PStr (isof t))
        | _ \<Rightarrow> dict_set result k v)"

definition SyncEngine_normalize_doc :: "engine_config \<Rightarrow> pydict \<Rightarrow> pydict" where
  "SyncEngine_normalize_doc cfg doc = normalize_doc_loop (cfg_isoformat cfg) doc []"

text \<open>
  The \<open>for row in rows\<close> loop of \<open>sync_pg_to_mongo\<close>; each row has its own \<open>try\<close>.
\<close>

fun SyncEngine_sync_pg_rows ::
  "('p, 'm) engine_db \<Rightarrow> engine_config \<Rightarrow> TableMapping \<Rightarrow> pydict list \<Rightarrow> 'm \<times> EngineStats
     \<Rightarrow> 'm \<times> EngineStats" where
  "SyncEngine_sync_pg_rows ops cfg mapping [] (m, stats) = (m, stats)"
| "SyncEngine_sync_pg_rows ops cfg mapping (row # rows) (m, stats) =
     (let doc = dict_set (SyncEngine_normalize_doc cfg row) SYNC_METADATA_FIELD (PDatetime (Aware (cfg_now cfg)))
      in case mongo_upsert ops m (mongo_collection mapping) doc (mapping_primary_key mapping) of
           (None, m1) \<Rightarrow>
             SyncEngine_sync_pg_rows ops cfg mapping rows (m1, stats\<lparr>pg_to_mongo := pg_to_mongo stats + 1\<rparr>)
         | (Some e, m1) \<Rightarrow>
             SyncEngine_sync_pg_rows ops cfg mapping rows (m1, stats\<lparr>errors_count := errors_count stats + 1\<rparr>))"

definition SyncEngine_sync_pg_to_mongo ::
  "('p, 'm) engine_db \<Rightarrow> engine_config \<Rightarrow> TableMapping \<Rightarrow> ('p \<times> 'm) \<times> EngineStats
     \<Rightarrow> (exn option \<times> (('p \<times> 'm) \<times> EngineStats) \<times> pydict list list) option" where
  "SyncEngine_sync_pg_to_mongo ops cfg mapping s =
     paged_loop
       (\<lambda>offset ((p, m), stats).
          pg_select_page ops p (postgres_table mapping) (mapping_primary_key mapping)
            (cfg_batch_size cfg) offset)
       (\<lambda>rows ((p, m), stats).
          (case SyncEngine_sync_pg_rows ops cfg mapping rows (m, stats) of
             (m1, stats1) \<Rightarrow> (None, ((p, m1), stats1))))
       (\<lambda>rows. int (length rows)) 0 s []"

text \<open>
  The \<open>for doc in docs\<close> loop of \<open>sync_mongo_to_pg\<close>, with the set of columns of the
  table; each document has its own \<open>try\<close>.
\<close>

fun SyncEngine_sync_mongo_docs ::
  "('p, 'm) engine_db \<Rightarrow> engine_config \<Rightarrow> TableMapping \<Rightarrow> string list \<Rightarrow> pydict list
     \<Rightarrow> 'p \<times> EngineStats \<Rightarrow> 'p \<times> EngineStats" where
  "SyncEngine_sync_mongo_docs ops cfg mapping pg_cols [] (p, stats) = (p, stats)"
| "SyncEngine_sync_mongo_docs ops cfg mapping pg_cols (doc # docs) (p, stats) =
     (let normalized = SyncEngine_normalize_doc cfg doc;
          filtered = dict_set (filter (\<lambda>(k, v). k \<in> set pg_cols) normalized)
                       SYNC_METADATA_FIELD (PDatetime (Aware (cfg_now cfg)))
      in if \<not> truthy (dict_get filtered (mapping_primary_key mapping))
         then SyncEngine_sync_mongo_docs ops cfg mapping pg_cols docs (p, stats)
         else
           (case pg_execute_upsert ops p (postgres_table mapping) (mapping_primary_key mapping) filtered of
              (None, p1) \<Rightarrow>
                SyncEngine_sync_mongo_docs ops cfg mapping pg_cols docs
                  (p1, stats\<lparr>mongo_to_pg := mongo_to_pg stats + 1\<rparr>)
            | (Some e, p1) \<Rightarrow>
                SyncEngine_sync_mongo_docs ops cfg mapping pg_cols docs
                  (p1, stats\<lparr>errors_count := errors_count stats + 1\<rparr>)))"

text \<open>
  The dictionary \<open>filtered\<close> that the loop of \<open>sync_mongo_to_pg\<close> builds from a document:
  the normalized document restricted to the columns of the table, with the metadata field
  set.
\<close>

definition SyncEngine_filtered :: "engine_config \<Rightarrow> string list \<Rightarrow> pydict \<Rightarrow> pydict" where
  "SyncEngine_filtered cfg pg_cols doc =
     dict_set (filter (\<lambda>(k, v). k \<in> set pg_cols) (SyncEngine_normalize_doc cfg doc))
       SYNC_METADATA_FIELD (PDatetime (Aware (cfg_now cfg)))"

definition SyncEngine_sync_mongo_to_pg ::
  "('p, 'm) engine_db \<Rightarrow> engine_config \<Rightarrow> TableMapping \<Rightarrow> ('p \<times> 'm) \<times> EngineStats
     \<Rightarrow> (exn option \<times> (('p \<times> 'm) \<times> EngineStats) \<times> pydict list list) option" where
  "SyncEngine_sync_mongo_to_pg ops cfg mapping s =
     (case pg_columns ops (fst (fst s)) (postgres_table mapping) of
        Inl e \<Rightarrow> Some (Some e, s, [])
      | Inr pg_cols \<Rightarrow>
          paged_loop
            (\<lambda>skip ((p, m), stats).
               mongo_find_page ops m (mongo_collection mapping) skip (cfg_batch_size cfg))
            (\<lambda>docs ((p, m), stats).
               (case SyncEngine_sync_mongo_docs ops cfg mapping pg_cols docs (p, stats) of
                  (p1, stats1) \<Rightarrow> (None, ((p1, m), stats1))))
            (\<lambda>docs. int (length docs)) 0 s [])"

text \<open>
  The dictionary comprehensions of \<open>sync_bidirectional\<close>: \<open>{row[pk]: row for row in ...}\<close>,
  which raises \<open>KeyError\<close> on a row without the key, and
  \<open>{doc[pk]: doc for doc in ... if pk in doc}\<close>.
\<close>

fun index_rows :: "string \<Rightarrow> pydict list \<Rightarrow> (pyval \<times> pydict) list \<Rightarrow> exn + (pyval \<times> pydict) list" where
  "index_rows pk [] acc = Inr acc"
| "index_rows pk (row # rows) acc =
     (case dict_item row pk of
        Inl e \<Rightarrow> Inl e
      | Inr key \<Rightarrow> index_rows pk rows (AList.update key row acc))"

fun index_docs :: "string \<Rightarrow> pydict list \<Rightarrow> (pyval \<times> pydict) list \<Rightarrow> (pyval \<times> pydict) list" where
  "index_docs pk [] acc = acc"
| "index_docs pk (doc # docs) acc =
     (case map_of doc pk of
        None \<Rightarrow> index_docs pk docs acc
      | Some key \<Rightarrow> index_docs pk docs (AList.update key doc acc))"

text \<open>\<open>SyncEngine._upsert_to_pg\<close>.\<close>

definition SyncEngine_upsert_to_pg ::
  "('p, 'm) engine_db \<Rightarrow> engine_config \<Rightarrow> TableMapping \<Rightarrow> pydict \<Rightarrow> int \<Rightarrow> 'p \<Rightarrow> exn option \<times> 'p" where
  "SyncEngine_upsert_to_pg ops cfg mapping doc timestamp p =
     (case pg_columns ops p (postgres_table mapping) of
        Inl e \<Rightarrow> (Some e, p)
      | Inr pg_cols \<Rightarrow>
          (let normalized = SyncEngine_normalize_doc cfg doc;
               filtered = dict_set (filter (\<lambda>(k, v). k \<in> set pg_cols) normalized)
                            SYNC_METADATA_FIELD (PDatetime (Aware timestamp))
           in pg_execute_upsert ops p (postgres_table mapping) (mapping_primary_key mapping) filtered))"

text \<open>Truthiness of \<open>d.get(key)\<close> for a dictionary of dictionaries: absent and empty are false.\<close>

definition dict_truthy :: "pydict option \<Rightarrow> bool" where
  "dict_truthy d = (case d of None \<Rightarrow> False | Some x \<Rightarrow> x \<noteq> [])"

text \<open>The dictionary that \<open>d.get(key)\<close> returned, where it is known to be truthy.\<close>

definition dict_of :: "pydict option \<Rightarrow> pydict" where
  "dict_of d = (case d of None \<Rightarrow> [] | Some x \<Rightarrow> x)"

text \<open>
  \<open>a == b\<close> on two dictionaries: the same keys with the same values, in any order. Values
  are compared as the datatype has them (Python's \<open>True == 1\<close> is outside the model).
\<close>

definition dict_eq :: "pydict \<Rightarrow> pydict \<Rightarrow> bool" where
  "dict_eq a b = (list_all (\<lambda>(k, v). map_of b k = Some v) a \<and> list_all (\<lambda>(k, v). map_of a k = Some v) b)"

definition without_sync_metadata :: "pydict \<Rightarrow> pydict" where
  "without_sync_metadata d = filter (\<lambda>(k, v). k \<noteq> SYNC_METADATA_FIELD) d"

text \<open>
  The body of the \<open>try\<close> in the loop of \<open>sync_bidirectional\<close>, for one key: the state it
  leaves and the exception it raised, if any.
\<close>

definition SyncEngine_sync_key_body ::
  "('p, 'm) engine_db \<Rightarrow> engine_config \<Rightarrow> TableMapping \<Rightarrow> pydict option \<Rightarrow> pydict option
     \<Rightarrow> ('p \<times> 'm) \<times> EngineStats \<Rightarrow> exn option \<times> (('p \<times> 'm) \<times> EngineStats)" where
  "SyncEngine_sync_key_body ops cfg mapping pg_row mongo_doc s =
     (case s of ((p, m), stats) \<Rightarrow>
      let now = cfg_now cfg; pk = mapping_primary_key mapping
      in if dict_truthy pg_row \<and> \<not> dict_truthy mongo_doc then
           (let doc = dict_set (SyncEngine_normalize_doc cfg (dict_of pg_row)) SYNC_METADATA_FIELD (PDatetime (Aware now))
            in case mongo_upsert ops m (mongo_collection mapping) doc pk of
                 (Some e, m1) \<Rightarrow> (Some e, ((p, m1), stats))
               | (None, m1) \<Rightarrow> (None, ((p, m1), stats\<lparr>pg_to_mongo := pg_to_mongo stats + 1\<rparr>)))
         else if dict_truthy mongo_doc \<and> \<not> dict_truthy pg_row then
           (case SyncEngine_upsert_to_pg ops cfg mapping (dict_of mongo_doc) now p of
              (Some e, p1) \<Rightarrow> (Some e, ((p1, m), stats))
            | (None, p1) \<Rightarrow> (None, ((p1, m), stats\<lparr>mongo_to_pg := mongo_to_pg stats + 1\<rparr>)))
         else
           (case pg_row of
              None \<Rightarrow> (Some (AttributeError ''items''), s)
            | Some pg_row1 \<Rightarrow>
                (case mongo_doc of
                   None \<Rightarrow> (Some (AttributeError ''items''), s)
                 | Some mongo_doc1 \<Rightarrow>
                     (let pg_compare = without_sync_metadata (SyncEngine_normalize_doc cfg pg_row1);
                          mongo_compare = without_sync_metadata (SyncEngine_normalize_doc cfg mongo_doc1)
                      in if \<not> dict_eq pg_compare mongo_compare then
                           (let stats1 = stats\<lparr>conflicts := conflicts stats + 1\<rparr>
                            in case SyncEngine_resolve_conflict (cfg_fromisoformat cfg) (cfg_str cfg)
                                      (cfg_conflict_resolution cfg) pg_row1 mongo_doc1 of
                                 Inl e \<Rightarrow> (Some e, ((p, m), stats1))
                               | Inr (winner, resolved) \<Rightarrow>
                                   if winner = ''pg'' then
                                     (let doc = dict_set (SyncEngine_normalize_doc cfg resolved)
                                                  SYNC_METADATA_FIELD (PDatetime (Aware now))
                                      in case mongo_upsert ops m (mongo_collection mapping) doc pk of
                                           (Some e, m1) \<Rightarrow> (Some e, ((p, m1), stats1))
                                         | (None, m1) \<Rightarrow>
                                             (None, ((p, m1), stats1\<lparr>pg_to_mongo := pg_to_mongo stats1 + 1\<rparr>)))
                                   else if winner = ''mongo'' then
                                     (case SyncEngine_upsert_to_pg ops cfg mapping resolved now p of
                                        (Some e, p1) \<Rightarrow> (Some e, ((p1, m), stats1))
                                      | (None, p1) \<Rightarrow>
                                          (None, ((p1, m), stats1\<lparr>mongo_to_pg := mongo_to_pg stats1 + 1\<rparr>)))
                                   else (None, ((p, m), stats1)))
                         else (None, s)))))"

text \<open>One round of the loop of \<open>sync_bidirectional\<close>: the \<open>try\<close> and its \<open>except\<close>.\<close>

definition SyncEngine_sync_key ::
  "('p, 'm) engine_db \<Rightarrow> engine_config \<Rightarrow> TableMapping \<Rightarrow> (pyval \<times> pydict) list \<Rightarrow> (pyval \<times> pydict) list
     \<Rightarrow> pyval \<Rightarrow> ('p \<times> 'm) \<times> EngineStats \<Rightarrow> ('p \<times> 'm) \<times> EngineStats" where
  "SyncEngine_sync_key ops cfg mapping pg_rows mongo_docs key s =
     (case SyncEngine_sync_key_body ops cfg mapping (map_of pg_rows key) (map_of mongo_docs key) s of
        (None, s1) \<Rightarrow> s1
      | (Some e, (db1, stats1)) \<Rightarrow> (db1, stats1\<lparr>errors_count := errors_count stats1 + 1\<rparr>))"

definition SyncEngine_sync_bidirectional ::
  "('p, 'm) engine_db \<Rightarrow> engine_config \<Rightarrow> TableMapping \<Rightarrow> ('p \<times> 'm) \<times> EngineStats
     \<Rightarrow> exn option \<times> (('p \<times> 'm) \<times> EngineStats)" where
  "SyncEngine_sync_bidirectional ops cfg mapping s =
     (case pg_select_all ops (fst (fst s)) (postgres_table mapping) of
        Inl e \<Rightarrow> (Some e, s)
      | Inr rows \<Rightarrow>
          (case index_rows (mapping_primary_key mapping) rows [] of
             Inl e \<Rightarrow> (Some e, s)
           | Inr pg_rows \<Rightarrow>
               (case mongo_find ops (snd (fst s)) (mongo_collection mapping) of
                  Inl e \<Rightarrow> (Some e, s)
                | Inr docs \<Rightarrow>
                    (let mongo_docs = index_docs (mapping_primary_key mapping) docs [];
                         all_keys = cfg_set_order cfg (remdups (map fst pg_rows @ map fst mongo_docs))
                     in (None, fold (SyncEngine_sync_key ops cfg mapping pg_rows mongo_docs) all_keys s)))))"

text \<open>
  \<open>sync_once\<close>: the body of the \<open>try\<close> for one mapping (\<open>None\<close> when a paged loop does not
  end), the \<open>try\<close> with its \<open>except\<close>, and the loop over the mappings.
\<close>

definition SyncEngine_sync_mapping_body ::
  "('p, 'm) engine_db \<Rightarrow> engine_config \<Rightarrow> TableMapping \<Rightarrow> ('p \<times> 'm) \<times> EngineStats
     \<Rightarrow> (exn option \<times> (('p \<times> 'm) \<times> EngineStats)) option" where
  "SyncEngine_sync_mapping_body ops cfg mapping s =
     (if cfg_sync_direction cfg = ''pg_to_mongo''
      then map_option (\<lambda>(e, s1, pages). (e, s1)) (SyncEngine_sync_pg_to_mongo ops cfg mapping s)
      else if cfg_sync_direction cfg = ''mongo_to_pg''
      then map_option (\<lambda>(e, s1, pages). (e, s1)) (SyncEngine_sync_mongo_to_pg ops cfg mapping s)
      else if cfg_sync_direction cfg = ''bidirectional''
      then Some (SyncEngine_sync_bidirectional ops cfg mapping s)
      else Some (None, s))"

definition SyncEngine_sync_mapping ::
  "('p, 'm) engine_db \<Rightarrow> engine_config \<Rightarrow> TableMapping \<Rightarrow> ('p \<times> 'm) \<times> EngineStats
     \<Rightarrow> (('p \<times> 'm) \<times> EngineStats) option" where
  "SyncEngine_sync_mapping ops cfg mapping s =
     (case SyncEngine_sync_mapping_body ops cfg mapping s of
        None \<Rightarrow> None
      | Some (None, s1) \<Rightarrow> Some s1
      | Some (Some e, (db1, stats1)) \<Rightarrow> Some (db1, stats1\<lparr>errors_count := errors_count stats1 + 1\<rparr>))"

fun SyncEngine_sync_once_loop ::
  "('p, 'm) engine_db \<Rightarrow> engine_config \<Rightarrow> TableMapping list \<Rightarrow> ('p \<times> 'm) \<times> EngineStats
     \<Rightarrow> (('p \<times> 'm) \<times> EngineStats) option" where
  "SyncEngine_sync_once_loop ops cfg [] s = Some s"
| "SyncEngine_sync_once_loop ops cfg (mapping # mappings) s =
     (case SyncEngine_sync_mapping ops cfg mapping s of
        None \<Rightarrow> None
      | Some s1 \<Rightarrow> SyncEngine_sync_once_loop ops cfg mappings s1)"

definition SyncEngine_sync_once ::
  "('p, 'm) engine_db \<Rightarrow> engine_config \<Rightarrow> TableMapping list \<Rightarrow> 'p \<times> 'm
     \<Rightarrow> (('p \<times> 'm) \<times> EngineStats) option" where
  "SyncEngine_sync_once ops cfg mappings db =
     SyncEngine_sync_once_loop ops cfg mappings
       (db, \<lparr>pg_to_mongo = 0, mongo_to_pg = 0, conflicts = 0, errors_count = 0\<rparr>)"

text \<open>
  Modelled from the spec: the module db of the baseline engine (\<open>fetch_all\<close>, \<open>execute\<close>,
  \<open>upsert\<close>, \<open>find\<close>) is not among the sources. The store contract of the spec gives
  in-memory stores: \<open>fetch_page\<close> returns the rows from \<open>offset\<close> on, at most \<open>limit\<close> of
  them, and \<open>upsert\<close> is insert-or-replace keyed on the key field. \<open>cols\<close> gives the
  columns of each table; as PostgreSQL does, the \<open>INSERT\<close> fails when it names a column
  that the table does not have.
\<close>

definition memory_engine_db ::
  "(string \<Rightarrow> string list) \<Rightarrow> (string \<Rightarrow> pydict list, string \<Rightarrow> pydict list) engine_db" where
  "memory_engine_db cols =
     \<lparr>pg_select_page = (\<lambda>p tbl pk limit offset.
         if limit < 0 \<or> offset < 0 then Inl (StoreError ''LIMIT and OFFSET must not be negative'')
         else Inr (take (nat limit) (drop (nat offset) (p tbl)))),
      pg_select_all = (\<lambda>p tbl. Inr (p tbl)),
      pg_columns = (\<lambda>p tbl. Inr (cols tbl)),
      pg_execute_upsert = (\<lambda>p tbl pk filtered.
         if list_all (\<lambda>(k, v). k \<in> set (cols tbl)) filtered
         then (None, p (tbl := sql_upsert pk filtered (p tbl)))
         else (Some (StoreError ''column does not exist''), p)),
      mongo_upsert = (\<lambda>m coll doc pk.
         (None, m (coll := update_one_upsert pk (dict_get doc pk) doc (m coll)))),
      mongo_find = (\<lambda>m coll. Inr (m coll)),
      mongo_find_page = (\<lambda>m coll skip limit.
         if skip < 0 then Inl (StoreError ''skip must be >= 0'')
         else Inr (if limit = 0 then drop (nat skip) (m coll)
                   else take (nat (abs limit)) (drop (nat skip) (m coll))))\<rparr>"

text \<open>A configuration, a mapping and stores for concrete runs of the baseline engine.\<close>

definition example_engine_config :: "string \<Rightarrow> string \<Rightarrow> engine_config" where
  "example_engine_config dir strat =
     \<lparr>cfg_batch_size = 2, cfg_conflict_resolution = strat, cfg_sync_direction = dir, cfg_now = 9,
      cfg_isoformat = (\<lambda>t. []), cfg_fromisoformat = (\<lambda>s. None), cfg_str = (\<lambda>v. []),
      cfg_set_order = (\<lambda>keys. keys)\<rparr>"

definition users_mapping :: TableMapping where
  "users_mapping = \<lparr>postgres_table = ''users'', mongo_collection = ''users'', mapping_primary_key = ''id''\<rparr>"

definition users_columns :: "string \<Rightarrow> string list" where
  "users_columns tbl = [''id'', ''name'', ''_sync_updated_at'']"

text \<open>The columns of a table \<open>users\<close> that was created without the metadata column.\<close>

definition plain_users_columns :: "string \<Rightarrow> string list" where
  "plain_users_columns tbl = [''id'', ''name'']"

definition exported_users :: "string \<Rightarrow> pydict list" where
  "exported_users coll =
     (if coll = ''users''
      then [[(''id'', PInt 1), (''name'', PStr ''Ann''), (''_sync_source'', PStr ''postgres'')]]
      else [])"

definition zero_stats :: EngineStats where
  "zero_stats = \<lparr>pg_to_mongo = 0, mongo_to_pg = 0, conflicts = 0, errors_count = 0\<rparr>"

text \<open>What a run of \<open>sync_mongo_to_pg\<close> leaves in the table \<open>users\<close>, with its counters.\<close>

definition users_after ::
  "(exn option \<times> (((string \<Rightarrow> pydict list) \<times> (string \<Rightarrow> pydict list)) \<times> EngineStats) \<times> pydict list list) option
     \<Rightarrow> (exn option \<times> pydict list \<times> nat \<times> nat) option" where
  "users_after run = map_option (\<lambda>(e, ((p, m), stats), pages). (e, p ''users'', mongo_to_pg stats, errors_count stats)) run"

text \<open>
  The two one-way passes one after the other: \<open>sync_pg_to_mongo\<close>, then
  \<open>sync_mongo_to_pg\<close> on the stores the first pass left.
\<close>

definition export_then_import ::
  "('p, 'm) engine_db \<Rightarrow> engine_config \<Rightarrow> TableMapping \<Rightarrow> ('p \<times> 'm) \<times> EngineStats
     \<Rightarrow> (exn option \<times> (('p \<times> 'm) \<times> EngineStats) \<times> pydict list list) option" where
  "export_then_import ops cfg mapping s =
     (case SyncEngine_sync_pg_to_mongo ops cfg mapping s of
        None \<Rightarrow> None
      | Some (e, s1, pages) \<Rightarrow> SyncEngine_sync_mongo_to_pg ops cfg mapping s1)"

definition orders_mapping :: TableMapping where
  "orders_mapping = \<lparr>postgres_table = ''orders'', mongo_collection = ''orders'', mapping_primary_key = ''id''\<rparr>"

text \<open>What a cycle leaves: the collection \<open>users\<close> and the statistics.\<close>

definition cycle_outcome ::
  "(((string \<Rightarrow> pydict list) \<times> (string \<Rightarrow> pydict list)) \<times> EngineStats) option
     \<Rightarrow> (pydict list \<times> EngineStats) option" where
  "cycle_outcome run = map_option (\<lambda>((p, m), stats). (m ''users'', stats)) run"

section \<open>datasync/datasync/sync.py: DataSync.sync\<close>

text \<open>
  The database calls of this engine, on a PostgreSQL state \<open>'p\<close> and a MongoDB state \<open>'m\<close>:
  \<open>cursor.execute\<close> of the paged \<open>SELECT\<close> with \<open>fetchall\<close>, \<open>collection.bulk_write\<close> of
  upserts matched on \<open>_pg_id\<close> (it returns \<open>modified_count + upserted_count\<close>),
  \<open>find().skip().limit()\<close>, \<open>cursor.execute\<close> of the upsert statement (it returns
  \<open>rowcount\<close>) and \<open>commit\<close>.
\<close>

record ('p, 'm) pkg_db =
  pkg_select :: "'p \<Rightarrow> string \<Rightarrow> int \<Rightarrow> int \<Rightarrow> exn + pydict list"
  pkg_bulk_write :: "'m \<Rightarrow> string \<Rightarrow> (pyval \<times> pydict) list \<Rightarrow> exn + nat \<times> 'm"
  pkg_find :: "'m \<Rightarrow> string \<Rightarrow> int \<Rightarrow> int \<Rightarrow> exn + pydict list"
  pkg_execute_upsert :: "'p \<Rightarrow> string \<Rightarrow> pydict \<Rightarrow> exn + nat \<times> 'p"
  pkg_commit :: "'p \<Rightarrow> exn + 'p"

record pkg_config =
  pkg_direction :: string
  pkg_batch_size :: int
  pkg_now :: int

text \<open>The dictionary \<open>table_stats\<close> and the fields of \<open>stats\<close> that the loop updates.\<close>

record table_stats =
  synced :: nat
  table_errors :: nat

record pkg_stats =
  stats_tables :: "(string \<times> table_stats) list"
  total_synced :: nat

text \<open>\<open>_sync_to_mongo\<close>: the list of operations, then the bulk write.\<close>

fun build_operations :: "int \<Rightarrow> pydict list \<Rightarrow> exn + (pyval \<times> pydict) list" where
  "build_operations now [] = Inr []"
| "build_operations now (rec # records) =
     (let doc = PkgDataSync_convert_pg_to_mongo now rec
      in case dict_item doc ''_pg_id'' of
           Inl e \<Rightarrow> Inl e
         | Inr pg_id \<Rightarrow>
             (case build_operations now records of
                Inl e \<Rightarrow> Inl e
              | Inr operations \<Rightarrow> Inr ((pg_id, doc) # operations)))"

definition PkgDataSync_sync_to_mongo ::
  "('p, 'm) pkg_db \<Rightarrow> pkg_config \<Rightarrow> pydict list \<Rightarrow> string \<Rightarrow> 'm \<Rightarrow> exn + nat \<times> 'm" where
  "PkgDataSync_sync_to_mongo ops cfg records coll_name m =
     (if records = [] then Inr (0, m)
      else case build_operations (pkg_now cfg) records of
             Inl e \<Rightarrow> Inl e
           | Inr operations \<Rightarrow> pkg_bulk_write ops m coll_name operations)"

text \<open>\<open>_sync_to_postgres\<close>: the loop over the documents, then the commit.\<close>

fun pkg_upsert_documents ::
  "('p, 'm) pkg_db \<Rightarrow> string \<Rightarrow> pydict list \<Rightarrow> 'p \<times> nat \<Rightarrow> exn + 'p \<times> nat" where
  "pkg_upsert_documents ops tbl [] (p, affected) = Inr (p, affected)"
| "pkg_upsert_documents ops tbl (doc # documents) (p, affected) =
     (case PkgDataSync_convert_mongo_to_pg doc of
        None \<Rightarrow> pkg_upsert_documents ops tbl documents (p, affected)
      | Some rec \<Rightarrow>
          (case pkg_execute_upsert ops p tbl rec of
             Inl e \<Rightarrow> Inl e
           | Inr (rowcount, p1) \<Rightarrow> pkg_upsert_documents ops tbl documents (p1, affected + rowcount)))"

definition PkgDataSync_sync_to_postgres ::
  "('p, 'm) pkg_db \<Rightarrow> pydict list \<Rightarrow> string \<Rightarrow> 'p \<Rightarrow> exn + nat \<times> 'p" where
  "PkgDataSync_sync_to_postgres ops documents tbl p =
     (if documents = [] then Inr (0, p)
      else case pkg_upsert_documents ops tbl documents (p, 0) of
             Inl e \<Rightarrow> Inl e
           | Inr (p1, affected) \<Rightarrow>
               (case pkg_commit ops p1 of
                  Inl e \<Rightarrow> Inl e
                | Inr p2 \<Rightarrow> Inr (affected, p2)))"

text \<open>
  The body of the \<open>try\<close> in the loop of \<open>sync\<close>, on the stores and \<open>table_stats\<close>: the two
  generators \<open>_fetch_postgres_batch\<close> and \<open>_fetch_mongo_batch\<close> are paged loops with the
  batch size as step.
\<close>

definition PkgDataSync_sync_mapping_body ::
  "('p, 'm) pkg_db \<Rightarrow> pkg_config \<Rightarrow> string \<Rightarrow> string \<Rightarrow> ('p \<times> 'm) \<times> table_stats
     \<Rightarrow> (exn option \<times> (('p \<times> 'm) \<times> table_stats)) option" where
  "PkgDataSync_sync_mapping_body ops cfg pg_table coll_name s =
     (case (if pkg_direction cfg \<in> {''postgres_to_mongo'', ''bidirectional''}
            then map_option (\<lambda>(e, s1, pages). (e, s1))
                   (paged_loop
                      (\<lambda>offset ((p, m), ts). pkg_select ops p pg_table (pkg_batch_size cfg) offset)
                      (\<lambda>batch ((p, m), ts).
                         (case PkgDataSync_sync_to_mongo ops cfg batch coll_name m of
                            Inl e \<Rightarrow> (Some e, ((p, m), ts))
                          | Inr (n, m1) \<Rightarrow> (None, ((p, m1), ts\<lparr>synced := synced ts + n\<rparr>))))
                      (\<lambda>batch. pkg_batch_size cfg) 0 s [])
            else Some (None, s)) of
        None \<Rightarrow> None
      | Some (Some e, s1) \<Rightarrow> Some (Some e, s1)
      | Some (None, s1) \<Rightarrow>
          (if pkg_direction cfg \<in> {''mongo_to_postgres'', ''bidirectional''}
           then map_option (\<lambda>(e, s2, pages). (e, s2))
                  (paged_loop
                     (\<lambda>skip ((p, m), ts). pkg_find ops m coll_name skip (pkg_batch_size cfg))
                     (\<lambda>batch ((p, m), ts).
                        (case PkgDataSync_sync_to_postgres ops batch pg_table p of
                           Inl e \<Rightarrow> (Some e, ((p, m), ts))
                         | Inr (n, p1) \<Rightarrow> (None, ((p1, m), ts\<lparr>synced := synced ts + n\<rparr>))))
                     (\<lambda>batch. pkg_batch_size cfg) 0 s1 [])
           else Some (None, s1)))"

text \<open>
  The loop of \<open>sync\<close> over the mappings (dictionaries with the keys \<open>postgres_table\<close> and
  \<open>mongo_collection\<close>). The \<open>except\<close> clause counts the error in \<open>table_stats\<close> and raises
  again, so the exception leaves \<open>sync\<close> and \<open>table_stats\<close> is dropped. The result is the
  exception that left \<open>sync\<close> (if any), the stores and \<open>stats\<close>; \<open>None\<close> when a paged loop
  does not end.
\<close>

fun PkgDataSync_sync_loop ::
  "('p, 'm) pkg_db \<Rightarrow> pkg_config \<Rightarrow> (string \<times> string) list list \<Rightarrow> ('p \<times> 'm) \<times> pkg_stats
     \<Rightarrow> (exn option \<times> ('p \<times> 'm) \<times> pkg_stats) option" where
  "PkgDataSync_sync_loop ops cfg [] (db, stats) = Some (None, db, stats)"
| "PkgDataSync_sync_loop ops cfg (mapping # mappings) (db, stats) =
     (case map_of mapping ''postgres_table'' of
        None \<Rightarrow> Some (Some (KeyError ''postgres_table''), db, stats)
      | Some pg_table \<Rightarrow>
          (case map_of mapping ''mongo_collection'' of
             None \<Rightarrow> Some (Some (KeyError ''mongo_collection''), db, stats)
           | Some coll_name \<Rightarrow>
               (case PkgDataSync_sync_mapping_body ops cfg pg_table coll_name
                       (db, \<lparr>synced = 0, table_errors = 0\<rparr>) of
                  None \<Rightarrow> None
                | Some (Some e, (db1, ts1)) \<Rightarrow> Some (Some e, db1, stats)
                | Some (None, (db1, ts1)) \<Rightarrow>
                    PkgDataSync_sync_loop ops cfg mappings
                      (db1, stats\<lparr>stats_tables := AList.update pg_table ts1 (stats_tables stats),
                                  total_synced := total_synced stats + synced ts1\<rparr>))))"

definition PkgDataSync_sync ::
  "('p, 'm) pkg_db \<Rightarrow> pkg_config \<Rightarrow> (string \<times> string) list list \<Rightarrow> 'p \<times> 'm
     \<Rightarrow> (exn option \<times> ('p \<times> 'm) \<times> pkg_stats) option" where
  "PkgDataSync_sync ops cfg mappings db =
     PkgDataSync_sync_loop ops cfg mappings (db, \<lparr>stats_tables = [], total_synced = 0\<rparr>)"

text \<open>
  In-memory stores behind this engine. The \<open>SELECT\<close> orders by the column \<open>id\<close>, which
  PostgreSQL rejects for a table without that column; the bulk write sets the fields of
  each document on the first document with the same \<open>_pg_id\<close> or inserts it.
\<close>

definition memory_pkg_db :: "(string \<Rightarrow> pydict list, string \<Rightarrow> pydict list) pkg_db" where
  "memory_pkg_db =
     \<lparr>pkg_select = (\<lambda>p tbl limit offset.
         if list_ex (\<lambda>row. \<not> dict_has row ''id'') (p tbl)
         then Inl (StoreError ''column id does not exist'')
         else if limit < 0 \<or> offset < 0 then Inl (StoreError ''LIMIT and OFFSET must not be negative'')
         else Inr (take (nat limit) (drop (nat offset) (p tbl)))),
      pkg_bulk_write = (\<lambda>m coll operations.
         Inr (length operations,
              m (coll := fold (\<lambda>(pg_id, doc) c. update_one_upsert ''_pg_id'' pg_id doc c) operations (m coll)))),
      pkg_find = (\<lambda>m coll skip limit.
         if skip < 0 then Inl (StoreError ''skip must be >= 0'')
         else Inr (if limit = 0 then drop (nat skip) (m coll)
                   else take (nat (abs limit)) (drop (nat skip) (m coll)))),
      pkg_execute_upsert = (\<lambda>p tbl rec. Inr (1, p (tbl := sql_upsert ''id'' rec (p tbl)))),
      pkg_commit = (\<lambda>p. Inr p)\<rparr>"

text \<open>A cycle over the two tables, for concrete runs.\<close>

definition two_mappings :: "(string \<times> string) list list" where
  "two_mappings =
     [[(''postgres_table'', ''orders''), (''mongo_collection'', ''orders'')],
      [(''postgres_table'', ''users''), (''mongo_collection'', ''users'')]]"

definition example_pkg_config :: pkg_config where
  "example_pkg_config = \<lparr>pkg_direction = ''postgres_to_mongo'', pkg_batch_size = 1000, pkg_now = 9\<rparr>"

text \<open>What a run of \<open>sync\<close> shows: the exception, the collection \<open>users\<close> and the statistics.\<close>

definition pkg_outcome ::
  "(exn option \<times> ((string \<Rightarrow> pydict list) \<times> (string \<Rightarrow> pydict list)) \<times> pkg_stats) option
     \<Rightarrow> (exn option \<times> pydict list \<times> (string \<times> table_stats) list \<times> nat) option" where
  "pkg_outcome run =
     map_option (\<lambda>(e, (p, m), stats). (e, m ''users'', stats_tables stats, total_synced stats)) run"

section \<open>Properties of the conflict resolvers\<close>

text \<open>
  C6: constructing the resolver with a strategy name outside \<open>STRATEGIES\<close> does not raise
  (the constructor is a total function with no exception among its results); it logs a
  warning and keeps \<open>latest_wins\<close>, so every later \<open>resolve\<close> is the one of a resolver
  configured with \<open>latest_wins\<close>.
\<close>

theorem C6_unknown_strategy_falls_back:
  "strategy \<notin> set STRATEGIES \<Longrightarrow>
     fst (ConflictResolver_init strategy) = fst (ConflictResolver_init ''latest_wins'')
     \<and> fst (ConflictResolver_init strategy) = ''latest_wins''
     \<and> snd (ConflictResolver_init strategy) \<noteq> []
     \<and> resolve fromisoformat (fst (ConflictResolver_init strategy)) source_doc target_doc source_type
         = resolve fromisoformat ''latest_wins'' source_doc target_doc source_type"
  by (simp add: ConflictResolver_init_def STRATEGIES_def)

theorem C6_unknown_strategy_falls_back_witness:
  "''manual'' \<notin> set STRATEGIES
   \<and> fst (ConflictResolver_init ''manual'') = ''latest_wins''
   \<and> snd (ConflictResolver_init ''manual'') \<noteq> []
   \<and> resolve (\<lambda>s. None) (fst (ConflictResolver_init ''manual''))
        [(''id'', PInt 1), (''updated_at'', PDatetime (Naive 5))]
        (Some [(''id'', PInt 1), (''updated_at'', PDatetime (Naive 9))]) ''postgres'' = Inr None"
  using C6_unknown_strategy_falls_back [of "''manual''" "\<lambda>s. None"
     "[(''id'', PInt 1), (''updated_at'', PDatetime (Naive 5))]"
     "Some [(''id'', PInt 1), (''updated_at'', PDatetime (Naive 9))]" "''postgres''"]
  by (simp add: STRATEGIES_def resolve_def get_timestamp_def ConflictResolver_init_def)

text \<open>
  Under \<open>latest_wins\<close>, for two records of one key whose timestamps Python can order (both
  naive or both aware): the later one wins and a tie goes to side a (the source document of
  \<open>ConflictResolver.resolve\<close>, the PostgreSQL row of \<open>SyncEngine._resolve_conflict\<close>); when
  exactly one carries a timestamp, that record wins; when neither does, side a wins. In
  \<open>ConflictResolver.resolve\<close> the result \<open>Some a\<close> writes side a and \<open>None\<close> leaves side b in
  place.
\<close>

lemma latest_wins_comparable:
  "(get_timestamp fromisoformat a = Some ta \<and> get_timestamp fromisoformat b = Some tb
        \<and> datetime_ge ta tb = Inr later \<longrightarrow>
      resolve fromisoformat ''latest_wins'' a (Some b) source_type
        = Inr (if later then Some a else None))
   \<and> (get_timestamp fromisoformat a = Some ta \<and> get_timestamp fromisoformat b = None \<longrightarrow>
      resolve fromisoformat ''latest_wins'' a (Some b) source_type = Inr (Some a))
   \<and> (get_timestamp fromisoformat a = None \<and> get_timestamp fromisoformat b = Some tb \<longrightarrow>
      resolve fromisoformat ''latest_wins'' a (Some b) source_type = Inr None)
   \<and> (get_timestamp fromisoformat a = None \<and> get_timestamp fromisoformat b = None \<longrightarrow>
      resolve fromisoformat ''latest_wins'' a (Some b) source_type = Inr (Some a))
   \<and> (truthy (updated_of pg_row) \<and> truthy (updated_of mongo_doc)
        \<and> as_datetime fromisoformat py_str (updated_of pg_row) = Inr tp
        \<and> as_datetime fromisoformat py_str (updated_of mongo_doc) = Inr tm
        \<and> datetime_ge tp tm = Inr pg_later \<longrightarrow>
      SyncEngine_resolve_conflict fromisoformat py_str ''latest_wins'' pg_row mongo_doc
        = Inr (if pg_later then (''pg'', pg_row) else (''mongo'', mongo_doc)))
   \<and> (truthy (updated_of pg_row) \<and> \<not> truthy (updated_of mongo_doc) \<longrightarrow>
      SyncEngine_resolve_conflict fromisoformat py_str ''latest_wins'' pg_row mongo_doc
        = Inr (''pg'', pg_row))
   \<and> (\<not> truthy (updated_of pg_row) \<and> truthy (updated_of mongo_doc) \<longrightarrow>
      SyncEngine_resolve_conflict fromisoformat py_str ''latest_wins'' pg_row mongo_doc
        = Inr (''mongo'', mongo_doc))
   \<and> (\<not> truthy (updated_of pg_row) \<and> \<not> truthy (updated_of mongo_doc) \<longrightarrow>
      SyncEngine_resolve_conflict fromisoformat py_str ''latest_wins'' pg_row mongo_doc
        = Inr (''pg'', pg_row))"
  by (simp add: resolve_def SyncEngine_resolve_conflict_def)

lemma datetime_ge_same_kind:
  "datetime_ge (Naive x) (Naive y) = Inr (y \<le> x) \<and> datetime_ge (Aware x) (Aware y) = Inr (y \<le> x)"
  by simp

text \<open>
  C1: both resolvers under \<open>latest_wins\<close>, at two records of one key that both carry a
  timestamp: side a an aware \<open>datetime\<close> (a \<open>timestamptz\<close> column read by psycopg2), side b
  a naive one (a value read back by pymongo). Neither record wins: the comparison of the
  two timestamps raises \<open>TypeError\<close>, which leaves \<open>ConflictResolver.resolve\<close> and
  \<open>SyncEngine._resolve_conflict\<close>.
\<close>

theorem C1_naive_against_aware_raises:
  "env_strategy (example_env 2) = ''latest_wins''
   \<and> get_timestamp (env_fromisoformat (example_env 2))
        [(''id'', PInt 1), (''updated_at'', PDatetime (Aware 9))] = Some (Aware 9)
   \<and> get_timestamp (env_fromisoformat (example_env 2))
        [(''id'', PInt 1), (''updated_at'', PDatetime (Naive 5))] = Some (Naive 5)
   \<and> resolve (env_fromisoformat (example_env 2)) (env_strategy (example_env 2))
        [(''id'', PInt 1), (''updated_at'', PDatetime (Aware 9))]
        (Some [(''id'', PInt 1), (''updated_at'', PDatetime (Naive 5))]) ''postgres''
       = Inl (TypeError (''can'' @ [CHR 0x27] @ ''t compare offset-naive and offset-aware datetimes''))
   \<and> cfg_conflict_resolution (example_engine_config ''bidirectional'' ''latest_wins'') = ''latest_wins''
   \<and> updated_of [(''id'', PInt 1), (''updated_at'', PDatetime (Aware 9))] = PDatetime (Aware 9)
   \<and> updated_of [(''id'', PInt 1), (''_sync_updated_at'', PDatetime (Naive 5))] = PDatetime (Naive 5)
   \<and> SyncEngine_resolve_conflict
        (cfg_fromisoformat (example_engine_config ''bidirectional'' ''latest_wins''))
        (cfg_str (example_engine_config ''bidirectional'' ''latest_wins''))
        (cfg_conflict_resolution (example_engine_config ''bidirectional'' ''latest_wins''))
        [(''id'', PInt 1), (''updated_at'', PDatetime (Aware 9))]
        [(''id'', PInt 1), (''_sync_updated_at'', PDatetime (Naive 5))]
       = Inl (TypeError (''can'' @ [CHR 0x27] @ ''t compare offset-naive and offset-aware datetimes''))"
  by (simp add: example_env_def example_engine_config_def resolve_def get_timestamp_def
        SyncEngine_resolve_conflict_def updated_of_def dict_get_def py_or_def SYNC_METADATA_FIELD_def
        as_datetime_def)

section \<open>Properties of the record conversions\<close>

lemma map_of_dict_set: "map_of (dict_set d k v) k' = (if k' = k then Some v else map_of d k')"
  by (simp add: dict_set_def update_conv')

lemma map_of_dict_pop: "map_of (dict_pop d k) k' = (if k' = k then None else map_of d k')"
  by (simp add: dict_pop_def delete_conv')

lemma id_field_pair: "id_field (k, x) = (k = ''id'' \<or> k = ''_pg_id'')"
  by (simp add: id_field_def)

lemma dict_set_absent: "k \<notin> fst ` set d \<Longrightarrow> dict_set d k v = d @ [(k, v)]"
  by (induction d) (auto simp: dict_set_def)

lemma filter_dict_set_other:
  "\<not> id_field (k, v) \<Longrightarrow> filter id_field (dict_set d k v) = filter id_field d"
  by (induction d) (auto simp: dict_set_def id_field_pair)

lemma filter_dict_set_pg_id:
  "''_pg_id'' \<in> fst ` set d \<Longrightarrow> filter id_field d = xs @ [(''id'', v)] \<Longrightarrow>
   \<exists>ys. filter id_field (dict_set d ''_pg_id'' w) = ys @ [(''id'', v)]"
proof (induction d arbitrary: xs)
  case Nil
  then show ?case by simp
next
  case (Cons kv d)
  obtain k x where kv: "kv = (k, x)" by (cases kv)
  show ?case
  proof (cases "k = ''_pg_id''")
    case True
    then have "filter id_field (kv # d) = kv # filter id_field d"
      using kv by (simp add: id_field_pair)
    then obtain xs' where "filter id_field d = xs' @ [(''id'', v)]"
      using Cons.prems(2) kv True by (cases xs) auto
    then show ?thesis using kv True by (simp add: dict_set_def id_field_pair)
  next
    case False
    then have has: "''_pg_id'' \<in> fst ` set d" using Cons.prems(1) kv by auto
    then have ne: "filter id_field d \<noteq> []"
      by (force simp: filter_empty_conv id_field_def)
    show ?thesis
    proof (cases "k = ''id''")
      case True
      then have "filter id_field (kv # d) = kv # filter id_field d"
        using kv by (simp add: id_field_pair)
      then obtain xs' where "filter id_field d = xs' @ [(''id'', v)]"
        using Cons.prems(2) ne by (cases xs) auto
      from Cons.IH [OF has this] show ?thesis
        using kv True by (auto simp: dict_set_def id_field_pair)
    next
      case k: False
      then have "filter id_field d = xs @ [(''id'', v)]"
        using Cons.prems(2) kv False by (simp add: id_field_pair)
      from Cons.IH [OF has this] show ?thesis
        using kv False k by (auto simp: dict_set_def id_field_pair)
    qed
  qed
qed

lemma keys_dict_set: "fst ` set (dict_set d k v) = insert k (fst ` set d)"
  by (induction d) (auto simp: dict_set_def)

lemma p2m_loop_keeps_id_last:
  "''id'' \<notin> fst ` set items \<Longrightarrow> ''_pg_id'' \<in> fst ` set doc \<Longrightarrow>
   filter id_field doc = xs @ [(''id'', v)] \<Longrightarrow>
   \<exists>ys. filter id_field (PkgDataSync_convert_pg_to_mongo_loop items doc) = ys @ [(''id'', v)]"
proof (induction items arbitrary: doc xs)
  case Nil
  then show ?case by simp
next
  case (Cons kv items)
  obtain key val where kv: "kv = (key, val)" by (cases kv)
  have key: "key \<noteq> ''id''" using Cons.prems(1) kv by auto
  have rest: "''id'' \<notin> fst ` set items" using Cons.prems(1) by auto
  have "\<exists>ys. filter id_field (dict_set doc key val) = ys @ [(''id'', v)]"
  proof (cases "key = ''_pg_id''")
    case True
    then show ?thesis using filter_dict_set_pg_id [OF Cons.prems(2) Cons.prems(3)] by simp
  next
    case False
    then have "\<not> id_field (key, val)" using key by (simp add: id_field_pair)
    then show ?thesis using Cons.prems(3) by (simp add: filter_dict_set_other)
  qed
  then obtain ys where ys: "filter id_field (dict_set doc key val) = ys @ [(''id'', v)]" by blast
  have has: "''_pg_id'' \<in> fst ` set (dict_set doc key val)"
    using Cons.prems(2) by (simp add: keys_dict_set)
  show ?case using Cons.IH [OF rest has ys] key kv by simp
qed

lemma p2m_loop_id_last:
  "distinct (map fst items) \<Longrightarrow> map_of items ''id'' = Some v \<Longrightarrow> ''id'' \<notin> fst ` set doc \<Longrightarrow>
   \<exists>ys. filter id_field (PkgDataSync_convert_pg_to_mongo_loop items doc) = ys @ [(''id'', v)]"
proof (induction items arbitrary: doc)
  case Nil
  then show ?case by simp
next
  case (Cons kv items)
  obtain key val where kv: "kv = (key, val)" by (cases kv)
  show ?case
  proof (cases "key = ''id''")
    case True
    then have v: "val = v" using Cons.prems(2) kv by simp
    have rest: "''id'' \<notin> fst ` set items" using Cons.prems(1) kv True by auto
    let ?d1 = "dict_set doc ''_pg_id'' v"
    have "''id'' \<notin> fst ` set ?d1" using Cons.prems(3) by (simp add: keys_dict_set)
    then have d2: "dict_set ?d1 ''id'' v = ?d1 @ [(''id'', v)]" by (rule dict_set_absent)
    have f: "filter id_field (dict_set ?d1 ''id'' v) = filter id_field ?d1 @ [(''id'', v)]"
      by (simp add: d2 id_field_pair)
    have has: "''_pg_id'' \<in> fst ` set (dict_set ?d1 ''id'' v)" by (simp add: keys_dict_set)
    show ?thesis using p2m_loop_keeps_id_last [OF rest has f] kv True v by simp
  next
    case False
    have d: "distinct (map fst items)" using Cons.prems(1) by simp
    have m: "map_of items ''id'' = Some v" using Cons.prems(2) kv False by simp
    have n: "''id'' \<notin> fst ` set (dict_set doc key val)"
      using Cons.prems(3) False by (simp add: keys_dict_set)
    show ?thesis using Cons.IH [OF d m n] kv False by simp
  qed
qed

lemma m2p_loop_id:
  "map_of (PkgDataSync_convert_mongo_to_pg_loop items acc) ''id''
     = (if filter id_field items = [] then map_of acc ''id''
        else Some (snd (last (filter id_field items))))"
proof (induction items arbitrary: acc)
  case Nil
  then show ?case by simp
next
  case (Cons kv items)
  obtain key val where kv: "kv = (key, val)" by (cases kv)
  show ?case using Cons.IH kv
    by (auto simp: id_field_pair startswith_underscore_def map_of_dict_set split: list.splits)
qed

lemma PkgDataSync_roundtrip_id:
  assumes "distinct (map fst row)" and "map_of row ''id'' = Some v"
  shows "map_option (\<lambda>r. map_of r ''id'') (PkgDataSync_convert_mongo_to_pg (PkgDataSync_convert_pg_to_mongo now row))
         = Some (Some v)"
proof -
  obtain ys where ys: "filter id_field (PkgDataSync_convert_pg_to_mongo_loop row []) = ys @ [(''id'', v)]"
    using p2m_loop_id_last [OF assms, of "[]"] by auto
  have "\<not> id_field (''_synced_at'', PDatetime (Naive now))" by (simp add: id_field_pair)
  then have f: "filter id_field (PkgDataSync_convert_pg_to_mongo now row) = ys @ [(''id'', v)]"
    using ys by (simp add: PkgDataSync_convert_pg_to_mongo_def filter_dict_set_other)
  have m: "map_of (PkgDataSync_convert_mongo_to_pg_loop (PkgDataSync_convert_pg_to_mongo now row) []) ''id'' = Some v"
    by (simp add: m2p_loop_id f)
  then have "PkgDataSync_convert_mongo_to_pg_loop (PkgDataSync_convert_pg_to_mongo now row) [] \<noteq> []"
    by auto
  then show ?thesis using m by (simp add: PkgDataSync_convert_mongo_to_pg_def Let_def)
qed


lemma p2m_loop_untouched:
  "k \<notin> fst ` set items \<Longrightarrow> (k = ''_pg_id'' \<longrightarrow> ''id'' \<notin> fst ` set items) \<Longrightarrow>
   map_of (PkgDataSync_convert_pg_to_mongo_loop items doc) k = map_of doc k"
proof (induction items arbitrary: doc)
  case Nil
  then show ?case by simp
next
  case (Cons kv items)
  obtain key val where kv: "kv = (key, val)" by (cases kv)
  have "map_of (PkgDataSync_convert_pg_to_mongo_loop items
          (let doc = (if key = ''id'' then dict_set doc ''_pg_id'' val else doc)
           in dict_set doc key val)) k
        = map_of (let doc = (if key = ''id'' then dict_set doc ''_pg_id'' val else doc)
           in dict_set doc key val) k"
    using Cons.prems by (intro Cons.IH) auto
  then show ?case using Cons.prems kv by (auto simp: map_of_dict_set)
qed

lemma p2m_loop_pg_id:
  "distinct (map fst items) \<Longrightarrow> map_of items ''id'' = Some v \<Longrightarrow> ''_pg_id'' \<notin> fst ` set items \<Longrightarrow>
   map_of (PkgDataSync_convert_pg_to_mongo_loop items doc) ''_pg_id'' = Some v"
proof (induction items arbitrary: doc)
  case Nil
  then show ?case by simp
next
  case (Cons kv items)
  obtain key val where kv: "kv = (key, val)" by (cases kv)
  show ?case
  proof (cases "key = ''id''")
    case True
    then have "''id'' \<notin> fst ` set items" and "''_pg_id'' \<notin> fst ` set items"
      using Cons.prems kv by auto
    then show ?thesis using kv True Cons.prems(2)
      by (simp add: p2m_loop_untouched map_of_dict_set)
  next
    case False
    then show ?thesis using Cons kv by auto
  qed
qed

text \<open>
  C2 (as amended): \<open>DataSync._convert_pg_to_mongo\<close> stores the \<open>id\<close> of a row under
  \<open>_pg_id\<close> (when the row has no column of that name) and creates no \<open>_id\<close> field, while
  \<open>SyncEngine._convert_for_mongo\<close> of the sequential engine stores the primary-key value as
  the document's \<open>_id\<close> itself and writes no side-channel field. In both engines the key
  value of a row that has its key column is the same after converting to document shape and
  back (for the sequential engine when the key column is not named like a sync marker).
\<close>

theorem C2_key_preserved_by_round_trip:
  "(distinct (map fst row) \<and> map_of row ''id'' = Some v \<and> \<not> dict_has row ''_pg_id'' \<longrightarrow>
      map_of (PkgDataSync_convert_pg_to_mongo now row) ''_pg_id'' = Some v)
   \<and> (\<not> dict_has row ''_id'' \<longrightarrow> \<not> dict_has (PkgDataSync_convert_pg_to_mongo now row) ''_id'')
   \<and> (distinct (map fst row) \<and> map_of row ''id'' = Some v \<longrightarrow>
      map_option (\<lambda>r. map_of r ''id'')
        (PkgDataSync_convert_mongo_to_pg (PkgDataSync_convert_pg_to_mongo now row)) = Some (Some v))
   \<and> (pk_col \<noteq> ''_id'' \<and> map_of row pk_col = Some v \<longrightarrow>
      map_of (SeqSyncEngine_convert_for_mongo now row pk_col) ''_id'' = Some v)
   \<and> (pk_col \<notin> {''_sync_source'', ''_sync_at''} \<and> map_of row pk_col = Some v \<longrightarrow>
      map_of (SeqSyncEngine_convert_for_postgres
                (SeqSyncEngine_convert_for_mongo now row pk_col) pk_col) pk_col = Some v)"
proof -
  have a: "distinct (map fst row) \<and> map_of row ''id'' = Some v \<and> \<not> dict_has row ''_pg_id'' \<longrightarrow>
      map_of (PkgDataSync_convert_pg_to_mongo now row) ''_pg_id'' = Some v"
    by (auto simp: PkgDataSync_convert_pg_to_mongo_def map_of_dict_set dict_has_def map_of_eq_None_iff
         intro!: p2m_loop_pg_id)
  have b: "\<not> dict_has row ''_id'' \<longrightarrow> \<not> dict_has (PkgDataSync_convert_pg_to_mongo now row) ''_id''"
    by (simp add: PkgDataSync_convert_pg_to_mongo_def map_of_dict_set dict_has_def
         map_of_eq_None_iff p2m_loop_untouched)
  have c: "distinct (map fst row) \<and> map_of row ''id'' = Some v \<longrightarrow>
      map_option (\<lambda>r. map_of r ''id'')
        (PkgDataSync_convert_mongo_to_pg (PkgDataSync_convert_pg_to_mongo now row)) = Some (Some v)"
    using PkgDataSync_roundtrip_id by blast
  have d: "pk_col \<noteq> ''_id'' \<and> map_of row pk_col = Some v \<longrightarrow>
      map_of (SeqSyncEngine_convert_for_mongo now row pk_col) ''_id'' = Some v"
    by (auto simp: SeqSyncEngine_convert_for_mongo_def Let_def map_of_dict_set map_of_dict_pop
         dict_has_def dict_get_def)
  have e: "pk_col \<notin> {''_sync_source'', ''_sync_at''} \<and> map_of row pk_col = Some v \<longrightarrow>
      map_of (SeqSyncEngine_convert_for_postgres
                (SeqSyncEngine_convert_for_mongo now row pk_col) pk_col) pk_col = Some v"
    by (auto simp: SeqSyncEngine_convert_for_postgres_def SeqSyncEngine_convert_for_mongo_def
         Let_def map_of_dict_set map_of_dict_pop dict_has_def dict_get_def)
  from a b c d e show ?thesis by blast
qed

text \<open>
  C2 as stated fails for the sequential engine: the row \<open>{id: 1, name: 'Ann'}\<close> becomes a
  document whose \<open>_id\<close> is the key value and which has no side-channel field, and a column
  named \<open>_id\<close> is overwritten by the key value.
\<close>

theorem C2_no_side_channel_counterexample:
  "SeqSyncEngine_convert_for_mongo 0 [(''id'', PInt 1), (''name'', PStr ''Ann'')] ''id''
     = [(''name'', PStr ''Ann''), (''_id'', PInt 1), (''_sync_source'', PStr ''postgres''),
        (''_sync_at'', PDatetime (Naive 0))]
   \<and> map_of (SeqSyncEngine_convert_for_mongo 0
        [(''_id'', PStr ''5f1d''), (''id'', PInt 1), (''name'', PStr ''Ann'')] ''id'') ''_id''
     = Some (PInt 1)"
  by (simp add: SeqSyncEngine_convert_for_mongo_def dict_has_def dict_set_def dict_pop_def
       dict_get_def)

theorem C2_key_preserved_by_round_trip_witness:
  "distinct (map fst [(''id'', PInt 1), (''name'', PStr ''Ann'')])
   \<and> map_of [(''id'', PInt 1), (''name'', PStr ''Ann'')] ''id'' = Some (PInt 1)
   \<and> \<not> dict_has [(''id'', PInt 1), (''name'', PStr ''Ann'')] ''_pg_id''
   \<and> \<not> dict_has [(''id'', PInt 1), (''name'', PStr ''Ann'')] ''_id''
   \<and> ''id'' \<noteq> ''_id'' \<and> ''id'' \<noteq> ''_sync_source'' \<and> ''id'' \<noteq> ''_sync_at''
   \<and> map_of (PkgDataSync_convert_pg_to_mongo 0 [(''id'', PInt 1), (''name'', PStr ''Ann'')]) ''_pg_id''
       = Some (PInt 1)
   \<and> \<not> dict_has (PkgDataSync_convert_pg_to_mongo 0 [(''id'', PInt 1), (''name'', PStr ''Ann'')]) ''_id''
   \<and> map_option (\<lambda>r. map_of r ''id'')
        (PkgDataSync_convert_mongo_to_pg
           (PkgDataSync_convert_pg_to_mongo 0 [(''id'', PInt 1), (''name'', PStr ''Ann'')]))
       = Some (Some (PInt 1))
   \<and> map_of (SeqSyncEngine_convert_for_mongo 0 [(''id'', PInt 1), (''name'', PStr ''Ann'')] ''id'') ''_id''
       = Some (PInt 1)
   \<and> map_of (SeqSyncEngine_convert_for_postgres
        (SeqSyncEngine_convert_for_mongo 0 [(''id'', PInt 1), (''name'', PStr ''Ann'')] ''id'') ''id'') ''id''
       = Some (PInt 1)"
  using C2_key_preserved_by_round_trip [of "[(''id'', PInt 1), (''name'', PStr ''Ann'')]" "PInt 1" 0 "''id''"]
  by (simp add: dict_has_def)

text \<open>
  C3: for any row \<open>R\<close> (whatever its values) and any primary-key column, converting with
  \<open>_convert_for_mongo\<close> and back with \<open>_convert_for_postgres\<close> gives, at every original
  field of \<open>R\<close> other than the reserved \<open>_id\<close>, \<open>_sync_source\<close> and \<open>_sync_at\<close>, the value
  \<open>R\<close> has there.
\<close>

theorem C3_round_trip_on_original_fields:
  "k \<notin> {''_id'', ''_sync_source'', ''_sync_at''} \<Longrightarrow> dict_has R k \<Longrightarrow>
    map_of (SeqSyncEngine_convert_for_postgres (SeqSyncEngine_convert_for_mongo now R pk_col) pk_col) k
     = map_of R k"
  by (auto simp: SeqSyncEngine_convert_for_postgres_def SeqSyncEngine_convert_for_mongo_def
     Let_def map_of_dict_set map_of_dict_pop dict_has_def dict_get_def split: option.splits)

theorem C3_round_trip_on_original_fields_witness:
  "''name'' \<notin> {''_id'', ''_sync_source'', ''_sync_at''}
   \<and> dict_has [(''id'', PInt 1), (''name'', PStr ''Ann''), (''ok'', PBool True), (''note'', PNone)] ''name''
   \<and> map_of (SeqSyncEngine_convert_for_postgres (SeqSyncEngine_convert_for_mongo 0
        [(''id'', PInt 1), (''name'', PStr ''Ann''), (''ok'', PBool True), (''note'', PNone)] ''id'') ''id'')
        ''name'' = Some (PStr ''Ann'')"
  using C3_round_trip_on_original_fields [of "''name''"
     "[(''id'', PInt 1), (''name'', PStr ''Ann''), (''ok'', PBool True), (''note'', PNone)]" 0 "''id''"]
  by (simp add: dict_has_def)

section \<open>Properties of sync_postgres_to_mongo\<close>

lemma process_batch_counts:
  "process_batch env ops m cfg batch (docs, stats) = (None, docs', stats') \<Longrightarrow>
     counted stats' = counted stats + length batch
     \<and> rows_processed stats' = rows_processed stats \<and> errors stats' = errors stats"
proof (induction batch arbitrary: docs stats)
  case Nil
  then show ?case by simp
next
  case (Cons row batch)
  let ?doc = "DataSync_convert_pg_to_mongo (env_to_float env) row"
  from Cons.prems obtain key_value where k: "dict_item ?doc (primary_key cfg) = Inr key_value"
    by (auto simp: Let_def split: sum.splits)
  from Cons.prems k obtain existing where
    g: "get_document ops m (collection cfg) (primary_key cfg) key_value = Inr existing"
    by (auto simp: Let_def split: sum.splits)
  from Cons.prems k g obtain res where
    r: "resolve (env_fromisoformat env) (env_strategy env) ?doc existing ''postgres'' = Inr res"
    by (auto simp: Let_def split: sum.splits)
  show ?case
  proof (cases res)
    case None
    then have "process_batch env ops m cfg batch
        (docs, stats\<lparr>rows_skipped := rows_skipped stats + 1\<rparr>) = (None, docs', stats')"
      using Cons.prems k g r by (simp add: Let_def)
    from Cons.IH [OF this] show ?thesis by (simp add: counted_def)
  next
    case (Some resolved)
    show ?thesis
    proof (cases existing)
      case None
      then have "process_batch env ops m cfg batch
          (docs @ [resolved], stats\<lparr>rows_inserted := rows_inserted stats + 1\<rparr>) = (None, docs', stats')"
        using Cons.prems k g r Some by (simp add: Let_def)
      from Cons.IH [OF this] show ?thesis by (simp add: counted_def)
    next
      case ex: (Some old)
      then have "process_batch env ops m cfg batch
          (docs @ [resolved], stats\<lparr>rows_updated := rows_updated stats + 1\<rparr>) = (None, docs', stats')"
        using Cons.prems k g r Some by (simp add: Let_def)
      from Cons.IH [OF this] show ?thesis by (simp add: counted_def)
    qed
  qed
qed

lemma process_batch_errors:
  "errors (snd (snd (process_batch env ops m cfg batch (docs, stats)))) = errors stats"
  by (induction batch arbitrary: docs stats) (auto simp: Let_def split: sum.splits option.splits)

lemma sync_loop_counts:
  fixes ops :: "'m db"
  assumes "sync_loop env ops cfg total_rows offset m stats pages = Some y"
  shows "(fst y = None \<longrightarrow> rows_processed stats = counted stats \<longrightarrow>
        rows_processed (fst (snd (snd y))) = counted (fst (snd (snd y))))
     \<and> errors (fst (snd (snd y))) = errors stats"
proof (rule sync_loop.raw_induct [where
    P = "\<lambda>(env::sync_env) (ops::'m db) (cfg::table_config) (total_rows::int) (offset::int) (m::'m)
           stats (pages::pydict list list) y.
         (fst y = None \<longrightarrow> rows_processed stats = counted stats \<longrightarrow>
            rows_processed (fst (snd (snd y))) = counted (fst (snd (snd y))))
         \<and> errors (fst (snd (snd y))) = errors stats", OF _ assms], goal_cases)
  case (1 loop env ops cfg total_rows offset m stats pages y)
  show ?case
  proof (cases "offset < total_rows")
    case False
    then show ?thesis using 1(2) by auto
  next
    case True
    show ?thesis
    proof (cases "fetch_batch ops (name cfg) (primary_key cfg) (env_batch_size env) offset")
      case (Inl e)
      then show ?thesis using 1(2) True by auto
    next
      case (Inr batch)
      show ?thesis
      proof (cases "batch = []")
        case True
        then show ?thesis using 1(2) \<open>offset < total_rows\<close> Inr by auto
      next
        case False
        obtain r docs stats1 where pb: "process_batch env ops m cfg batch ([], stats) = (r, docs, stats1)"
          by (cases "process_batch env ops m cfg batch ([], stats)") auto
        have e1: "errors stats1 = errors stats"
          using process_batch_errors [of env ops m cfg batch "[]" stats] pb by simp
        show ?thesis
        proof (cases r)
          case (Some e)
          then show ?thesis using 1(2) \<open>offset < total_rows\<close> Inr False pb e1 by auto
        next
          case None
          note c = process_batch_counts [OF pb [unfolded None]]
          obtain r2 m1 where up: "(if docs \<noteq> []
                 then upsert_batch ops m (collection cfg) docs (primary_key cfg)
                 else (None, m)) = (r2, m1)"
            by (cases "(if docs \<noteq> []
                 then upsert_batch ops m (collection cfg) docs (primary_key cfg)
                 else (None, m))") auto
          show ?thesis
          proof (cases r2)
            case (Some e)
            then show ?thesis using 1(2) \<open>offset < total_rows\<close> Inr False pb None up e1 by auto
          next
            case n2: None
            have rec: "loop env ops cfg total_rows (offset + env_batch_size env) m1
                  (stats1\<lparr>rows_processed := rows_processed stats1 + length batch\<rparr>)
                  (pages @ [batch]) = Some y"
              using 1(2) \<open>offset < total_rows\<close> Inr False pb None up n2 by simp
            from 1(1) [OF rec] c e1 show ?thesis by (simp add: counted_def)
          qed
        qed
      qed
    qed
  qed
qed

text \<open>
  C10: whenever \<open>sync_postgres_to_mongo\<close> returns and its \<open>errors\<close> list is empty, the
  returned statistics satisfy \<open>rows_processed = rows_inserted + rows_updated + rows_skipped\<close>,
  whatever the two connection handlers do.
\<close>

theorem C10_processed_is_sum_of_outcomes:
  "sync_postgres_to_mongo env ops cfg m = Some (stats, m', pages) \<Longrightarrow> errors stats = [] \<Longrightarrow>
     rows_processed stats = rows_inserted stats + rows_updated stats + rows_skipped stats"
proof -
  assume r: "sync_postgres_to_mongo env ops cfg m = Some (stats, m', pages)" and e: "errors stats = []"
  let ?s0 = "\<lparr>table = name cfg, direction = ''postgres_to_mongo'', rows_processed = 0,
               rows_inserted = 0, rows_updated = 0, rows_skipped = 0, errors = []\<rparr>"
  from r e obtain total_rows where t: "get_row_count ops (name cfg) = Inr total_rows"
    by (auto simp: sync_postgres_to_mongo_def Let_def split: sum.splits)
  from r e t have l: "sync_loop env ops cfg total_rows 0 m ?s0 [] = Some (None, m', stats, pages)"
    by (auto simp: sync_postgres_to_mongo_def Let_def split: option.splits)
  from sync_loop_counts [OF l] show ?thesis by (simp add: counted_def)
qed

















theorem C10_processed_is_sum_of_outcomes_witness:
  "\<exists>stats m' pages.
     sync_postgres_to_mongo (example_env 2)
       (db_py (\<lambda>t. [[(''id'', PInt 1), (''name'', PStr ''Ann'')],
                     [(''id'', PInt 2), (''updated_at'', PDatetime (Naive 3))], [(''id'', PInt 3)]]))
       example_cfg
       (\<lambda>c. [[(''id'', PInt 2), (''updated_at'', PDatetime (Naive 5))], [(''id'', PInt 3), (''name'', PStr ''Cy'')]])
       = Some (stats, m', pages)
     \<and> errors stats = [] \<and> rows_inserted stats = 1 \<and> rows_updated stats = 1 \<and> rows_skipped stats = 1
     \<and> rows_processed stats = rows_inserted stats + rows_updated stats + rows_skipped stats"
proof -
  have "\<exists>stats m' pages.
     sync_postgres_to_mongo (example_env 2)
       (db_py (\<lambda>t. [[(''id'', PInt 1), (''name'', PStr ''Ann'')],
                     [(''id'', PInt 2), (''updated_at'', PDatetime (Naive 3))], [(''id'', PInt 3)]]))
       example_cfg
       (\<lambda>c. [[(''id'', PInt 2), (''updated_at'', PDatetime (Naive 5))], [(''id'', PInt 3), (''name'', PStr ''Cy'')]])
       = Some (stats, m', pages)
     \<and> errors stats = [] \<and> rows_inserted stats = 1 \<and> rows_updated stats = 1 \<and> rows_skipped stats = 1"
    by (simp add: sync_postgres_to_mongo_def example_env_def example_cfg_def db_py_def sync_loop.simps
       PostgresConnection_get_row_count_def PostgresConnection_fetch_batch_def
       MongoConnection_get_document_def MongoConnection_upsert_batch_def
       DataSync_convert_pg_to_mongo_def dict_item_def dict_set_def dict_has_def dict_get_def
       mongo_matches_def resolve_def get_timestamp_def Let_def)
  then obtain stats m' pages where
    r: "sync_postgres_to_mongo (example_env 2)
       (db_py (\<lambda>t. [[(''id'', PInt 1), (''name'', PStr ''Ann'')],
                     [(''id'', PInt 2), (''updated_at'', PDatetime (Naive 3))], [(''id'', PInt 3)]]))
       example_cfg
       (\<lambda>c. [[(''id'', PInt 2), (''updated_at'', PDatetime (Naive 5))], [(''id'', PInt 3), (''name'', PStr ''Cy'')]])
       = Some (stats, m', pages)"
    and e: "errors stats = []"
    and c: "rows_inserted stats = 1" "rows_updated stats = 1" "rows_skipped stats = 1"
    by blast
  from C10_processed_is_sum_of_outcomes [OF r e] r e c show ?thesis by blast
qed




section \<open>Properties of the sync loops of the engines\<close>

lemma paged_loop_batches:
  assumes "paged_loop fetch body step offset s pages = Some y"
  shows "fst y = None \<longrightarrow>
           (\<exists>bs. snd (snd y) = pages @ bs \<and> run_batches body bs s = (None, fst (snd y)))"
proof (rule paged_loop.raw_induct [where
    P = "\<lambda>fetch body step offset s pages y. fst y = None \<longrightarrow>
           (\<exists>bs. snd (snd y) = pages @ bs \<and> run_batches body bs s = (None, fst (snd y)))",
    OF _ assms], goal_cases)
  case (1 loop fetch body step offset s pages y)
  show ?case
  proof (cases "fetch offset s")
    case (Inl e)
    then show ?thesis using 1(2) by auto
  next
    case (Inr batch)
    show ?thesis
    proof (cases "batch = []")
      case True
      then show ?thesis using 1(2) Inr by auto
    next
      case False
      obtain r s1 where b: "body batch s = (r, s1)" by (cases "body batch s") auto
      show ?thesis
      proof (cases r)
        case (Some e)
        then show ?thesis using 1(2) Inr False b by auto
      next
        case None
        then have rec: "loop fetch body step (offset + step batch) s1 (pages @ [batch]) = Some y"
          using 1(2) Inr False b by simp
        show ?thesis
        proof
          assume n: "fst y = None"
          from 1(1) [OF rec] n obtain bs where
            bs: "snd (snd y) = (pages @ [batch]) @ bs" "run_batches body bs s1 = (None, fst (snd y))"
            by blast
          have "snd (snd y) = pages @ (batch # bs)" using bs(1) by simp
          moreover have "run_batches body (batch # bs) s = (None, fst (snd y))"
            using b None bs(2) by simp
          ultimately show "\<exists>bs. snd (snd y) = pages @ bs \<and> run_batches body bs s = (None, fst (snd y))"
            by blast
        qed
      qed
    qed
  qed
qed

lemma sync_docs_append:
  "SeqSyncEngine_sync_docs ops cfg tbl pk (xs @ ys) (p, r)
     = (case SeqSyncEngine_sync_docs ops cfg tbl pk xs (p, r) of
          (Some e, p1, r1) \<Rightarrow> (Some e, p1, r1)
        | (None, p1, r1) \<Rightarrow> SeqSyncEngine_sync_docs ops cfg tbl pk ys (p1, r1))"
proof (induction xs arbitrary: p r)
  case Nil
  then show ?case by simp
next
  case (Cons doc xs)
  show ?case
    by (simp add: Cons.IH Let_def split: sum.splits bool.splits prod.splits)
qed

lemma run_batches_sync_docs:
  "run_batches (\<lambda>docs ((p, m), result).
          (case SeqSyncEngine_sync_docs ops cfg tbl pk docs (p, result) of
             (e, p1, result1) \<Rightarrow> (e, ((p1, m), result1)))) bs ((p, m), r) = (None, ((p', m'), r'))
   \<Longrightarrow> m' = m \<and> SeqSyncEngine_sync_docs ops cfg tbl pk (concat bs) (p, r) = (None, p', r')"
proof (induction bs arbitrary: p r)
  case Nil
  then show ?case by simp
next
  case (Cons b bs)
  obtain e p1 r1 where b: "SeqSyncEngine_sync_docs ops cfg tbl pk b (p, r) = (e, p1, r1)"
    by (cases "SeqSyncEngine_sync_docs ops cfg tbl pk b (p, r)") auto
  from Cons.prems b have e: "e = None" by (cases e) auto
  from Cons.prems b e have
    "run_batches (\<lambda>docs ((p, m), result).
          (case SeqSyncEngine_sync_docs ops cfg tbl pk docs (p, result) of
             (e, p1, result1) \<Rightarrow> (e, ((p1, m), result1)))) bs ((p1, m), r1) = (None, ((p', m'), r'))"
    by simp
  from Cons.IH [OF this] show ?case using b e by (simp add: sync_docs_append)
qed

lemma sync_docs_skips_gen:
  assumes "records_synced r1 = records_synced r2" and "result_errors r1 = result_errors r2"
  shows "fst (SeqSyncEngine_sync_docs ops cfg tbl pk docs (p, r1))
           = fst (SeqSyncEngine_sync_docs ops cfg tbl pk (filter (\<lambda>d. \<not> from_postgres d) docs) (p, r2))
     \<and> fst (snd (SeqSyncEngine_sync_docs ops cfg tbl pk docs (p, r1)))
           = fst (snd (SeqSyncEngine_sync_docs ops cfg tbl pk (filter (\<lambda>d. \<not> from_postgres d) docs) (p, r2)))
     \<and> records_synced (snd (snd (SeqSyncEngine_sync_docs ops cfg tbl pk docs (p, r1))))
           = records_synced (snd (snd (SeqSyncEngine_sync_docs ops cfg tbl pk
                (filter (\<lambda>d. \<not> from_postgres d) docs) (p, r2))))
     \<and> result_errors (snd (snd (SeqSyncEngine_sync_docs ops cfg tbl pk docs (p, r1))))
           = result_errors (snd (snd (SeqSyncEngine_sync_docs ops cfg tbl pk
                (filter (\<lambda>d. \<not> from_postgres d) docs) (p, r2))))
     \<and> (fst (SeqSyncEngine_sync_docs ops cfg tbl pk docs (p, r1)) = None \<longrightarrow>
          records_skipped (snd (snd (SeqSyncEngine_sync_docs ops cfg tbl pk docs (p, r1))))
            = records_skipped r1 + length (filter from_postgres docs))"
  using assms
proof (induction docs arbitrary: p r1 r2)
  case Nil
  then show ?case by simp
next
  case (Cons doc docs)
  show ?case
  proof (cases "from_postgres doc")
    case True
    have a: "records_synced (r1\<lparr>records_skipped := records_skipped r1 + 1\<rparr>) = records_synced r2"
      and b: "result_errors (r1\<lparr>records_skipped := records_skipped r1 + 1\<rparr>) = result_errors r2"
      using Cons.prems by simp_all
    from Cons.IH [OF a b, of p] True show ?thesis
      by (simp add: from_postgres_def)
  next
    case False
    let ?rec = "SeqSyncEngine_convert_for_postgres doc pk"
    show ?thesis
    proof (cases "seq_upsert_to_postgres ops p tbl ?rec pk")
      case (Inl e)
      then show ?thesis using False Cons.prems by (simp add: from_postgres_def Let_def)
    next
      case (Inr okp)
      obtain ok p1 where okp: "okp = (ok, p1)" by (cases okp)
      show ?thesis
      proof (cases ok)
        case True
        have a: "records_synced (r1\<lparr>records_synced := records_synced r1 + 1\<rparr>)
                  = records_synced (r2\<lparr>records_synced := records_synced r2 + 1\<rparr>)"
          and b: "result_errors (r1\<lparr>records_synced := records_synced r1 + 1\<rparr>)
                  = result_errors (r2\<lparr>records_synced := records_synced r2 + 1\<rparr>)"
          using Cons.prems by simp_all
        from Cons.IH [OF a b, of p1] False Inr okp True show ?thesis
          by (simp add: from_postgres_def Let_def)
      next
        case ok: False
        let ?msg = "''Failed to sync document '' @ seq_str cfg (dict_get doc ''_id'') @ '' to PostgreSQL''"
        have a: "records_synced (r1\<lparr>result_errors := result_errors r1 @ [?msg]\<rparr>)
                  = records_synced (r2\<lparr>result_errors := result_errors r2 @ [?msg]\<rparr>)"
          and b: "result_errors (r1\<lparr>result_errors := result_errors r1 @ [?msg]\<rparr>)
                  = result_errors (r2\<lparr>result_errors := result_errors r2 @ [?msg]\<rparr>)"
          using Cons.prems by simp_all
        from Cons.IH [OF a b, of p1] False Inr okp ok show ?thesis
          by (simp add: from_postgres_def Let_def)
      qed
    qed
  qed
qed


lemma filter_cols_dict_set:
  "filter (\<lambda>(k, v). k \<in> C) (dict_set d key val)
     = (if key \<in> C then dict_set (filter (\<lambda>(k, v). k \<in> C) d) key val
        else filter (\<lambda>(k, v). k \<in> C) d)"
  by (induction d) (auto simp: dict_set_def)

lemma filter_cols_normalize_loop:
  "filter (\<lambda>(k, v). k \<in> C) (normalize_doc_loop isof items acc)
     = normalize_doc_loop isof (filter (\<lambda>(k, v). k \<in> C) items) (filter (\<lambda>(k, v). k \<in> C) acc)"
proof (induction items arbitrary: acc)
  case Nil
  then show ?case by simp
next
  case (Cons kv items)
  obtain key val where kv: "kv = (key, val)" by (cases kv)
  show ?case by (cases val) (simp_all add: kv Cons.IH filter_cols_dict_set)
qed

lemma filtered_ignores_marker:
  "''_sync_source'' \<notin> set pg_cols \<Longrightarrow>
     SyncEngine_filtered cfg pg_cols (dict_set doc ''_sync_source'' marker)
       = SyncEngine_filtered cfg pg_cols doc"
  by (simp add: SyncEngine_filtered_def SyncEngine_normalize_doc_def filter_cols_normalize_loop
        filter_cols_dict_set)

text \<open>
  C7 (as amended): in \<open>_sync_mongo_to_postgres\<close> of the sequential engine, the documents
  whose \<open>_sync_source\<close> is \<open>'postgres'\<close> are not written back: the loop over a batch raises
  the same exception and leaves the same PostgreSQL state as on the batch without those
  documents, and when it does not raise it has counted each of them in \<open>records_skipped\<close>.
  The same holds for a whole run that returns without exception, on the documents of the
  batches it fetched, and the run leaves the MongoDB state as it is.

  The loop of \<open>sync_mongo_to_pg\<close> of the baseline engine tests no origin marker. For every
  document, marked or not, whose primary-key value in \<open>filtered\<close> is truthy it executes the
  upsert, and counts the document in \<open>mongo_to_pg\<close> when the statement succeeds and in
  \<open>errors\<close> when it raises; a document without a truthy key is passed over and counted
  nowhere. On a table without a column \<open>_sync_source\<close>, setting that field of a document
  changes nothing of what the loop does.
\<close>

theorem C7_marked_documents_skipped:
  "fst (SeqSyncEngine_sync_docs ops cfg tbl pk docs (p, r))
     = fst (SeqSyncEngine_sync_docs ops cfg tbl pk (filter (\<lambda>d. \<not> from_postgres d) docs) (p, r))
   \<and> fst (snd (SeqSyncEngine_sync_docs ops cfg tbl pk docs (p, r)))
     = fst (snd (SeqSyncEngine_sync_docs ops cfg tbl pk (filter (\<lambda>d. \<not> from_postgres d) docs) (p, r)))
   \<and> (fst (SeqSyncEngine_sync_docs ops cfg tbl pk docs (p, r)) = None \<longrightarrow>
        records_skipped (snd (snd (SeqSyncEngine_sync_docs ops cfg tbl pk docs (p, r))))
          = records_skipped r + length (filter from_postgres docs))
   \<and> (SeqSyncEngine_sync_mongo_to_postgres ops cfg tbl pk ((p, m), r) = Some (None, ((p2, m2), r2), pages) \<longrightarrow>
        m2 = m
        \<and> p2 = fst (snd (SeqSyncEngine_sync_docs ops cfg tbl pk
                  (filter (\<lambda>d. \<not> from_postgres d) (concat pages)) (p, r)))
        \<and> records_skipped r2 = records_skipped r + length (filter from_postgres (concat pages)))
   \<and> (truthy (dict_get (SyncEngine_filtered ecfg pg_cols doc) (mapping_primary_key mapping))
        \<and> pg_execute_upsert eops ep (postgres_table mapping) (mapping_primary_key mapping)
              (SyncEngine_filtered ecfg pg_cols doc) = (None, ep_next) \<longrightarrow>
        SyncEngine_sync_mongo_docs eops ecfg mapping pg_cols (doc # others) (ep, stats)
          = SyncEngine_sync_mongo_docs eops ecfg mapping pg_cols others
              (ep_next, stats\<lparr>mongo_to_pg := mongo_to_pg stats + 1\<rparr>))
   \<and> (truthy (dict_get (SyncEngine_filtered ecfg pg_cols doc) (mapping_primary_key mapping))
        \<and> pg_execute_upsert eops ep (postgres_table mapping) (mapping_primary_key mapping)
              (SyncEngine_filtered ecfg pg_cols doc) = (Some raised, ep_next) \<longrightarrow>
        SyncEngine_sync_mongo_docs eops ecfg mapping pg_cols (doc # others) (ep, stats)
          = SyncEngine_sync_mongo_docs eops ecfg mapping pg_cols others
              (ep_next, stats\<lparr>errors_count := errors_count stats + 1\<rparr>))
   \<and> (\<not> truthy (dict_get (SyncEngine_filtered ecfg pg_cols doc) (mapping_primary_key mapping)) \<longrightarrow>
        SyncEngine_sync_mongo_docs eops ecfg mapping pg_cols (doc # others) (ep, stats)
          = SyncEngine_sync_mongo_docs eops ecfg mapping pg_cols others (ep, stats))
   \<and> (''_sync_source'' \<notin> set pg_cols \<longrightarrow>
        SyncEngine_sync_mongo_docs eops ecfg mapping pg_cols
            (dict_set doc ''_sync_source'' marker # others) (ep, stats)
          = SyncEngine_sync_mongo_docs eops ecfg mapping pg_cols (doc # others) (ep, stats))"
proof -
  note g = sync_docs_skips_gen [OF refl refl, of ops cfg tbl pk _ p r]
  have w: "SeqSyncEngine_sync_mongo_to_postgres ops cfg tbl pk ((p, m), r) = Some (None, ((p2, m2), r2), pages) \<longrightarrow>
        m2 = m
        \<and> p2 = fst (snd (SeqSyncEngine_sync_docs ops cfg tbl pk
                  (filter (\<lambda>d. \<not> from_postgres d) (concat pages)) (p, r)))
        \<and> records_skipped r2 = records_skipped r + length (filter from_postgres (concat pages))"
  proof
    assume a: "SeqSyncEngine_sync_mongo_to_postgres ops cfg tbl pk ((p, m), r) = Some (None, ((p2, m2), r2), pages)"
    from paged_loop_batches [OF a [unfolded SeqSyncEngine_sync_mongo_to_postgres_def]]
    obtain bs where bs: "pages = bs"
      and rb: "run_batches (\<lambda>docs ((p, m), result).
          (case SeqSyncEngine_sync_docs ops cfg tbl pk docs (p, result) of
             (e, p1, result1) \<Rightarrow> (e, ((p1, m), result1)))) bs ((p, m), r) = (None, ((p2, m2), r2))"
      by auto
    from run_batches_sync_docs [OF rb] have m2: "m2 = m"
      and sd: "SeqSyncEngine_sync_docs ops cfg tbl pk (concat pages) (p, r) = (None, p2, r2)"
      using bs by simp_all
    from g [of "concat pages"] sd m2 show "m2 = m
        \<and> p2 = fst (snd (SeqSyncEngine_sync_docs ops cfg tbl pk
                  (filter (\<lambda>d. \<not> from_postgres d) (concat pages)) (p, r)))
        \<and> records_skipped r2 = records_skipped r + length (filter from_postgres (concat pages))"
      by simp
  qed
  have b1: "truthy (dict_get (SyncEngine_filtered ecfg pg_cols doc) (mapping_primary_key mapping))
        \<and> pg_execute_upsert eops ep (postgres_table mapping) (mapping_primary_key mapping)
              (SyncEngine_filtered ecfg pg_cols doc) = (None, ep_next) \<longrightarrow>
        SyncEngine_sync_mongo_docs eops ecfg mapping pg_cols (doc # others) (ep, stats)
          = SyncEngine_sync_mongo_docs eops ecfg mapping pg_cols others
              (ep_next, stats\<lparr>mongo_to_pg := mongo_to_pg stats + 1\<rparr>)"
    by (simp add: SyncEngine_filtered_def Let_def)
  have b2: "truthy (dict_get (SyncEngine_filtered ecfg pg_cols doc) (mapping_primary_key mapping))
        \<and> pg_execute_upsert eops ep (postgres_table mapping) (mapping_primary_key mapping)
              (SyncEngine_filtered ecfg pg_cols doc) = (Some raised, ep_next) \<longrightarrow>
        SyncEngine_sync_mongo_docs eops ecfg mapping pg_cols (doc # others) (ep, stats)
          = SyncEngine_sync_mongo_docs eops ecfg mapping pg_cols others
              (ep_next, stats\<lparr>errors_count := errors_count stats + 1\<rparr>)"
    by (simp add: SyncEngine_filtered_def Let_def)
  have b3: "\<not> truthy (dict_get (SyncEngine_filtered ecfg pg_cols doc) (mapping_primary_key mapping)) \<longrightarrow>
        SyncEngine_sync_mongo_docs eops ecfg mapping pg_cols (doc # others) (ep, stats)
          = SyncEngine_sync_mongo_docs eops ecfg mapping pg_cols others (ep, stats)"
    by (simp add: SyncEngine_filtered_def Let_def)
  have b4: "''_sync_source'' \<notin> set pg_cols \<longrightarrow>
        SyncEngine_sync_mongo_docs eops ecfg mapping pg_cols
            (dict_set doc ''_sync_source'' marker # others) (ep, stats)
          = SyncEngine_sync_mongo_docs eops ecfg mapping pg_cols (doc # others) (ep, stats)"
    using filtered_ignores_marker [of pg_cols ecfg doc marker]
    by (simp add: SyncEngine_filtered_def Let_def)
  from g [of docs] w have a: "fst (SeqSyncEngine_sync_docs ops cfg tbl pk docs (p, r))
     = fst (SeqSyncEngine_sync_docs ops cfg tbl pk (filter (\<lambda>d. \<not> from_postgres d) docs) (p, r))
   \<and> fst (snd (SeqSyncEngine_sync_docs ops cfg tbl pk docs (p, r)))
     = fst (snd (SeqSyncEngine_sync_docs ops cfg tbl pk (filter (\<lambda>d. \<not> from_postgres d) docs) (p, r)))
   \<and> (fst (SeqSyncEngine_sync_docs ops cfg tbl pk docs (p, r)) = None \<longrightarrow>
        records_skipped (snd (snd (SeqSyncEngine_sync_docs ops cfg tbl pk docs (p, r))))
          = records_skipped r + length (filter from_postgres docs))
   \<and> (SeqSyncEngine_sync_mongo_to_postgres ops cfg tbl pk ((p, m), r) = Some (None, ((p2, m2), r2), pages) \<longrightarrow>
        m2 = m
        \<and> p2 = fst (snd (SeqSyncEngine_sync_docs ops cfg tbl pk
                  (filter (\<lambda>d. \<not> from_postgres d) (concat pages)) (p, r)))
        \<and> records_skipped r2 = records_skipped r + length (filter from_postgres (concat pages)))"
    by blast
  from a b1 b2 b3 b4 show ?thesis by (elim conjE) (intro conjI, assumption+)
qed


lemmas memory_simps = memory_seq_db_def example_seq_config_def seq_example_docs_def empty_result_def
  no_rows_def from_postgres_def dict_get_def dict_set_def dict_pop_def dict_has_def
  SeqSyncEngine_convert_for_postgres_def id_to_str_def SeqSyncEngine_fetch_mongo_batch_def Let_def

theorem C7_marked_documents_skipped_witness:
  "fst (SeqSyncEngine_sync_docs memory_seq_db example_seq_config ''users'' ''id''
          (seq_example_docs ''users'') (no_rows, empty_result)) = None
   \<and> records_skipped (snd (snd (SeqSyncEngine_sync_docs memory_seq_db example_seq_config ''users'' ''id''
          (seq_example_docs ''users'') (no_rows, empty_result)))) = 2
   \<and> (\<exists>p2 r2 pages.
         SeqSyncEngine_sync_mongo_to_postgres memory_seq_db example_seq_config ''users'' ''id''
           ((no_rows, seq_example_docs), empty_result) = Some (None, ((p2, seq_example_docs), r2), pages)
         \<and> concat pages = seq_example_docs ''users''
         \<and> p2 ''users'' = [[(''name'', PStr ''Bob''), (''id'', PInt 2)]]
         \<and> records_skipped r2 = 2 \<and> records_synced r2 = 1)
   \<and> exported_users ''users'' = [[(''id'', PInt 1), (''name'', PStr ''Ann''), (''_sync_source'', PStr ''postgres'')]]
   \<and> from_postgres [(''id'', PInt 1), (''name'', PStr ''Ann''), (''_sync_source'', PStr ''postgres'')]
   \<and> fst (SyncEngine_sync_mongo_docs (memory_engine_db users_columns) (example_engine_config ''mongo_to_pg'' ''latest_wins'') users_mapping
          (users_columns ''users'') (exported_users ''users'') (no_rows, zero_stats)) ''users''
       = [[(''id'', PInt 1), (''name'', PStr ''Ann''), (''_sync_updated_at'', PDatetime (Aware 9))]]
   \<and> snd (SyncEngine_sync_mongo_docs (memory_engine_db users_columns) (example_engine_config ''mongo_to_pg'' ''latest_wins'') users_mapping
          (users_columns ''users'') (exported_users ''users'') (no_rows, zero_stats))
       = zero_stats\<lparr>mongo_to_pg := 1\<rparr>
   \<and> fst (SyncEngine_sync_mongo_docs (memory_engine_db plain_users_columns) (example_engine_config ''mongo_to_pg'' ''latest_wins'') users_mapping
          (plain_users_columns ''users'') (exported_users ''users'') (no_rows, zero_stats)) ''users''
       = []
   \<and> snd (SyncEngine_sync_mongo_docs (memory_engine_db plain_users_columns) (example_engine_config ''mongo_to_pg'' ''latest_wins'') users_mapping
          (plain_users_columns ''users'') (exported_users ''users'') (no_rows, zero_stats))
       = zero_stats\<lparr>errors_count := 1\<rparr>
   \<and> snd (SyncEngine_sync_mongo_docs (memory_engine_db users_columns) (example_engine_config ''mongo_to_pg'' ''latest_wins'') users_mapping
          (users_columns ''users'') [[(''name'', PStr ''Bob'')]] (no_rows, zero_stats))
       = zero_stats
   \<and> ''_sync_source'' \<notin> set (users_columns ''users'')
   \<and> SyncEngine_sync_mongo_docs (memory_engine_db users_columns) (example_engine_config ''mongo_to_pg'' ''latest_wins'') users_mapping
          (users_columns ''users'') [[(''id'', PInt 1), (''name'', PStr ''Ann''), (''_sync_source'', PStr ''postgres'')]] (no_rows, zero_stats)
       = SyncEngine_sync_mongo_docs (memory_engine_db users_columns) (example_engine_config ''mongo_to_pg'' ''latest_wins'') users_mapping
          (users_columns ''users'') [[(''id'', PInt 1), (''name'', PStr ''Ann'')]] (no_rows, zero_stats)"
proof -
  have n: "fst (SeqSyncEngine_sync_docs memory_seq_db example_seq_config ''users'' ''id''
          (seq_example_docs ''users'') (no_rows, empty_result)) = None"
    by (simp add: memory_simps)
  have f: "length (filter from_postgres (seq_example_docs ''users'')) = 2"
    by (simp add: memory_simps)
  have "\<exists>p2 r2 pages.
         SeqSyncEngine_sync_mongo_to_postgres memory_seq_db example_seq_config ''users'' ''id''
           ((no_rows, seq_example_docs), empty_result) = Some (None, ((p2, seq_example_docs), r2), pages)
         \<and> concat pages = seq_example_docs ''users''
         \<and> p2 ''users'' = [[(''name'', PStr ''Bob''), (''id'', PInt 2)]] \<and> records_synced r2 = 1"
    by (simp add: SeqSyncEngine_sync_mongo_to_postgres_def paged_loop.simps memory_simps)
  then obtain p2 r2 pages where
    run: "SeqSyncEngine_sync_mongo_to_postgres memory_seq_db example_seq_config ''users'' ''id''
           ((no_rows, seq_example_docs), empty_result) = Some (None, ((p2, seq_example_docs), r2), pages)"
    and c: "concat pages = seq_example_docs ''users''"
    and p: "p2 ''users'' = [[(''name'', PStr ''Bob''), (''id'', PInt 2)]]" and s: "records_synced r2 = 1"
    by blast
  note t = C7_marked_documents_skipped [of memory_seq_db example_seq_config "''users''" "''id''"
      "seq_example_docs ''users''" no_rows empty_result seq_example_docs p2 seq_example_docs r2 pages]
  from t [THEN conjunct2, THEN conjunct2, THEN conjunct1]
    t [THEN conjunct2, THEN conjunct2, THEN conjunct2, THEN conjunct1] n f run c
  have "records_skipped (snd (snd (SeqSyncEngine_sync_docs memory_seq_db example_seq_config ''users'' ''id''
          (seq_example_docs ''users'') (no_rows, empty_result)))) = 2"
    and "records_skipped r2 = 2"
    by (simp_all add: empty_result_def)
  with n run c p s have seq: "fst (SeqSyncEngine_sync_docs memory_seq_db example_seq_config ''users'' ''id''
          (seq_example_docs ''users'') (no_rows, empty_result)) = None
   \<and> records_skipped (snd (snd (SeqSyncEngine_sync_docs memory_seq_db example_seq_config ''users'' ''id''
          (seq_example_docs ''users'') (no_rows, empty_result)))) = 2
   \<and> (\<exists>p2 r2 pages.
         SeqSyncEngine_sync_mongo_to_postgres memory_seq_db example_seq_config ''users'' ''id''
           ((no_rows, seq_example_docs), empty_result) = Some (None, ((p2, seq_example_docs), r2), pages)
         \<and> concat pages = seq_example_docs ''users''
         \<and> p2 ''users'' = [[(''name'', PStr ''Bob''), (''id'', PInt 2)]]
         \<and> records_skipped r2 = 2 \<and> records_synced r2 = 1)"
    by blast
  note edefs = SyncEngine_filtered_def memory_engine_db_def users_columns_def plain_users_columns_def
    example_engine_config_def users_mapping_def no_rows_def exported_users_def zero_stats_def
    SyncEngine_normalize_doc_def dict_set_def dict_get_def dict_has_def SYNC_METADATA_FIELD_def
    from_postgres_def Let_def
  note b = C7_marked_documents_skipped [where eops = "memory_engine_db users_columns"
      and ecfg = "example_engine_config ''mongo_to_pg'' ''latest_wins''" and mapping = users_mapping
      and pg_cols = "users_columns ''users''" and doc = "[(''id'', PInt 1), (''name'', PStr ''Ann''), (''_sync_source'', PStr ''postgres'')]" and others = "[]"
      and ep = no_rows and stats = zero_stats
      and ep_next = "no_rows (''users'' := [[(''id'', PInt 1), (''name'', PStr ''Ann''), (''_sync_updated_at'', PDatetime (Aware 9))]])"
      and raised = "StoreError ''column does not exist''" and marker = "PStr ''postgres''"]
  note bp = C7_marked_documents_skipped [where eops = "memory_engine_db plain_users_columns"
      and ecfg = "example_engine_config ''mongo_to_pg'' ''latest_wins''" and mapping = users_mapping
      and pg_cols = "plain_users_columns ''users''" and doc = "[(''id'', PInt 1), (''name'', PStr ''Ann''), (''_sync_source'', PStr ''postgres'')]" and others = "[]"
      and ep = no_rows and stats = zero_stats and ep_next = no_rows
      and raised = "StoreError ''column does not exist''" and marker = "PStr ''postgres''"]
  note bb = C7_marked_documents_skipped [where eops = "memory_engine_db users_columns"
      and ecfg = "example_engine_config ''mongo_to_pg'' ''latest_wins''" and mapping = users_mapping
      and pg_cols = "users_columns ''users''" and doc = "[(''name'', PStr ''Bob'')]" and others = "[]"
      and ep = no_rows and stats = zero_stats and ep_next = no_rows
      and raised = "StoreError ''column does not exist''" and marker = "PStr ''postgres''"]
  note bm = C7_marked_documents_skipped [where eops = "memory_engine_db users_columns"
      and ecfg = "example_engine_config ''mongo_to_pg'' ''latest_wins''" and mapping = users_mapping
      and pg_cols = "users_columns ''users''" and doc = "[(''id'', PInt 1), (''name'', PStr ''Ann'')]" and others = "[]"
      and ep = no_rows and stats = zero_stats and ep_next = no_rows
      and raised = "StoreError ''column does not exist''" and marker = "PStr ''postgres''"]
  have ex: "exported_users ''users'' = [[(''id'', PInt 1), (''name'', PStr ''Ann''), (''_sync_source'', PStr ''postgres'')]]"
    by (simp add: exported_users_def)
  have fp: "from_postgres [(''id'', PInt 1), (''name'', PStr ''Ann''), (''_sync_source'', PStr ''postgres'')]"
    by (simp add: from_postgres_def dict_get_def)
  have h1: "truthy (dict_get (SyncEngine_filtered (example_engine_config ''mongo_to_pg'' ''latest_wins'') (users_columns ''users'')
                [(''id'', PInt 1), (''name'', PStr ''Ann''), (''_sync_source'', PStr ''postgres'')]) (mapping_primary_key users_mapping))
        \<and> pg_execute_upsert (memory_engine_db users_columns) no_rows (postgres_table users_mapping)
              (mapping_primary_key users_mapping)
              (SyncEngine_filtered (example_engine_config ''mongo_to_pg'' ''latest_wins'') (users_columns ''users'') [(''id'', PInt 1), (''name'', PStr ''Ann''), (''_sync_source'', PStr ''postgres'')])
            = (None, no_rows (''users'' := [[(''id'', PInt 1), (''name'', PStr ''Ann''), (''_sync_updated_at'', PDatetime (Aware 9))]]))"
    by (simp add: edefs)
  from b [THEN conjunct2, THEN conjunct2, THEN conjunct2, THEN conjunct2, THEN conjunct1, THEN mp, OF h1]
  have w1: "SyncEngine_sync_mongo_docs (memory_engine_db users_columns) (example_engine_config ''mongo_to_pg'' ''latest_wins'') users_mapping
          (users_columns ''users'') (exported_users ''users'') (no_rows, zero_stats)
        = (no_rows (''users'' := [[(''id'', PInt 1), (''name'', PStr ''Ann''), (''_sync_updated_at'', PDatetime (Aware 9))]]), zero_stats\<lparr>mongo_to_pg := 1\<rparr>)"
    by (simp add: ex zero_stats_def)
  have h2: "truthy (dict_get (SyncEngine_filtered (example_engine_config ''mongo_to_pg'' ''latest_wins'') (plain_users_columns ''users'')
                [(''id'', PInt 1), (''name'', PStr ''Ann''), (''_sync_source'', PStr ''postgres'')]) (mapping_primary_key users_mapping))
        \<and> pg_execute_upsert (memory_engine_db plain_users_columns) no_rows (postgres_table users_mapping)
              (mapping_primary_key users_mapping)
              (SyncEngine_filtered (example_engine_config ''mongo_to_pg'' ''latest_wins'') (plain_users_columns ''users'') [(''id'', PInt 1), (''name'', PStr ''Ann''), (''_sync_source'', PStr ''postgres'')])
            = (Some (StoreError ''column does not exist''), no_rows)"
    by (simp add: edefs)
  from bp [THEN conjunct2, THEN conjunct2, THEN conjunct2, THEN conjunct2, THEN conjunct2, THEN conjunct1,
      THEN mp, OF h2]
  have w2: "SyncEngine_sync_mongo_docs (memory_engine_db plain_users_columns) (example_engine_config ''mongo_to_pg'' ''latest_wins'') users_mapping
          (plain_users_columns ''users'') (exported_users ''users'') (no_rows, zero_stats)
        = (no_rows, zero_stats\<lparr>errors_count := 1\<rparr>)"
    by (simp add: ex zero_stats_def)
  have h3: "\<not> truthy (dict_get (SyncEngine_filtered (example_engine_config ''mongo_to_pg'' ''latest_wins'') (users_columns ''users'')
                [(''name'', PStr ''Bob'')]) (mapping_primary_key users_mapping))"
    by (simp add: edefs)
  from bb [THEN conjunct2, THEN conjunct2, THEN conjunct2, THEN conjunct2, THEN conjunct2, THEN conjunct2,
      THEN conjunct1, THEN mp, OF h3]
  have w3: "SyncEngine_sync_mongo_docs (memory_engine_db users_columns) (example_engine_config ''mongo_to_pg'' ''latest_wins'') users_mapping
          (users_columns ''users'') [[(''name'', PStr ''Bob'')]] (no_rows, zero_stats)
        = (no_rows, zero_stats)"
    by simp
  have h4: "''_sync_source'' \<notin> set (users_columns ''users'')"
    by (simp add: users_columns_def)
  from bm [THEN conjunct2, THEN conjunct2, THEN conjunct2, THEN conjunct2, THEN conjunct2, THEN conjunct2,
      THEN conjunct2, THEN mp, OF h4]
  have w4: "SyncEngine_sync_mongo_docs (memory_engine_db users_columns) (example_engine_config ''mongo_to_pg'' ''latest_wins'') users_mapping
          (users_columns ''users'') [[(''id'', PInt 1), (''name'', PStr ''Ann''), (''_sync_source'', PStr ''postgres'')]] (no_rows, zero_stats)
       = SyncEngine_sync_mongo_docs (memory_engine_db users_columns) (example_engine_config ''mongo_to_pg'' ''latest_wins'') users_mapping
          (users_columns ''users'') [[(''id'', PInt 1), (''name'', PStr ''Ann'')]] (no_rows, zero_stats)"
    by (simp add: dict_set_def)
  have f1: "fst (SyncEngine_sync_mongo_docs (memory_engine_db users_columns) (example_engine_config ''mongo_to_pg'' ''latest_wins'') users_mapping
          (users_columns ''users'') (exported_users ''users'') (no_rows, zero_stats)) ''users''
       = [[(''id'', PInt 1), (''name'', PStr ''Ann''), (''_sync_updated_at'', PDatetime (Aware 9))]]"
    by (simp only: w1 fst_conv fun_upd_same)
  have s1: "snd (SyncEngine_sync_mongo_docs (memory_engine_db users_columns) (example_engine_config ''mongo_to_pg'' ''latest_wins'') users_mapping
          (users_columns ''users'') (exported_users ''users'') (no_rows, zero_stats))
       = zero_stats\<lparr>mongo_to_pg := 1\<rparr>"
    by (simp only: w1 snd_conv)
  have f2: "fst (SyncEngine_sync_mongo_docs (memory_engine_db plain_users_columns) (example_engine_config ''mongo_to_pg'' ''latest_wins'') users_mapping
          (plain_users_columns ''users'') (exported_users ''users'') (no_rows, zero_stats)) ''users''
       = []"
    by (simp only: w2 fst_conv no_rows_def)
  have s2: "snd (SyncEngine_sync_mongo_docs (memory_engine_db plain_users_columns) (example_engine_config ''mongo_to_pg'' ''latest_wins'') users_mapping
          (plain_users_columns ''users'') (exported_users ''users'') (no_rows, zero_stats))
       = zero_stats\<lparr>errors_count := 1\<rparr>"
    by (simp only: w2 snd_conv)
  have s3: "snd (SyncEngine_sync_mongo_docs (memory_engine_db users_columns) (example_engine_config ''mongo_to_pg'' ''latest_wins'') users_mapping
          (users_columns ''users'') [[(''name'', PStr ''Bob'')]] (no_rows, zero_stats))
       = zero_stats"
    by (simp only: w3 snd_conv)
  from seq ex fp f1 s1 f2 s2 s3 h4 w4 show ?thesis
    by (elim conjE) (intro conjI, assumption+)
qed

text \<open>
  C7 as stated fails for \<open>sync_mongo_to_pg\<close> of the baseline engine, on a table \<open>users\<close>
  with the columns \<open>id\<close>, \<open>name\<close> and \<open>_sync_updated_at\<close>: a document that carries
  \<open>_sync_source = 'postgres'\<close> is written to the table and counted in \<open>mongo_to_pg\<close>, and
  so is the document that a pass of \<open>sync_pg_to_mongo\<close> has just exported from the table.
\<close>

theorem C7_baseline_engine_writes_marked_counterexample:
  "users_after (SyncEngine_sync_mongo_to_pg (memory_engine_db users_columns)
       (example_engine_config ''mongo_to_pg'' ''latest_wins'') users_mapping
       ((no_rows, exported_users), zero_stats))
     = Some (None, [[(''id'', PInt 1), (''name'', PStr ''Ann''), (''_sync_updated_at'', PDatetime (Aware 9))]], 1, 0)
   \<and> users_after (export_then_import (memory_engine_db users_columns)
       (example_engine_config ''mongo_to_pg'' ''latest_wins'') users_mapping
       ((two_tables, no_rows), zero_stats))
     = Some (None, [[(''id'', PInt 1), (''name'', PStr ''Ann''), (''_sync_updated_at'', PDatetime (Aware 9))]], 1, 0)"
  by (simp add: users_after_def export_then_import_def SyncEngine_sync_mongo_to_pg_def
       SyncEngine_sync_pg_to_mongo_def paged_loop.simps memory_engine_db_def
       users_columns_def example_engine_config_def users_mapping_def no_rows_def exported_users_def
       two_tables_def zero_stats_def SyncEngine_normalize_doc_def dict_set_def dict_get_def dict_has_def
       SYNC_METADATA_FIELD_def Let_def)

text \<open>
  C5: when the configured strategy is none of \<open>source_wins\<close>, \<open>target_wins\<close>,
  \<open>latest_wins\<close> (so \<open>manual\<close> or any unrecognized name) and both sides hold a non-empty
  record for the key with differing payloads, \<open>_resolve_conflict\<close> returns \<open>skip\<close>, and the
  round of \<open>sync_bidirectional\<close> for that key increments \<open>conflicts\<close> only: both stores
  and the other counters are as before.
\<close>

theorem C5_manual_strategy_skips:
  assumes "strat \<notin> {''source_wins'', ''target_wins'', ''latest_wins''}"
    and "cfg_conflict_resolution cfg = strat"
    and "pg_row \<noteq> []" and "mongo_doc \<noteq> []"
    and "\<not> dict_eq (without_sync_metadata (SyncEngine_normalize_doc cfg pg_row))
                    (without_sync_metadata (SyncEngine_normalize_doc cfg mongo_doc))"
    and "map_of pg_rows key = Some pg_row" and "map_of mongo_docs key = Some mongo_doc"
  shows "SyncEngine_resolve_conflict fromisoformat py_str strat pg_row mongo_doc = Inr (''skip'', [])
    \<and> SyncEngine_sync_key_body ops cfg mapping (Some pg_row) (Some mongo_doc) ((p, m), stats)
         = (None, ((p, m), stats\<lparr>conflicts := conflicts stats + 1\<rparr>))
    \<and> SyncEngine_sync_key ops cfg mapping pg_rows mongo_docs key ((p, m), stats)
         = ((p, m), stats\<lparr>conflicts := conflicts stats + 1\<rparr>)"
proof -
  have r: "\<And>f g. SyncEngine_resolve_conflict f g strat pg_row mongo_doc = Inr (''skip'', [])"
    using assms(1) by (simp add: SyncEngine_resolve_conflict_def Let_def)
  have b: "SyncEngine_sync_key_body ops cfg mapping (Some pg_row) (Some mongo_doc) ((p, m), stats)
         = (None, ((p, m), stats\<lparr>conflicts := conflicts stats + 1\<rparr>))"
    using assms(2-5) by (simp add: SyncEngine_sync_key_body_def dict_truthy_def Let_def r)
  have "SyncEngine_sync_key ops cfg mapping pg_rows mongo_docs key ((p, m), stats)
         = ((p, m), stats\<lparr>conflicts := conflicts stats + 1\<rparr>)"
    by (simp add: SyncEngine_sync_key_def assms(6,7) b)
  with r b show ?thesis by blast
qed

theorem C5_manual_strategy_skips_witness:
  "''manual'' \<notin> {''source_wins'', ''target_wins'', ''latest_wins''}
   \<and> cfg_conflict_resolution (example_engine_config ''bidirectional'' ''manual'') = ''manual''
   \<and> \<not> dict_eq
        (without_sync_metadata (SyncEngine_normalize_doc (example_engine_config ''bidirectional'' ''manual'')
           [(''id'', PInt 42), (''name'', PStr ''Ann'')]))
        (without_sync_metadata (SyncEngine_normalize_doc (example_engine_config ''bidirectional'' ''manual'')
           [(''id'', PInt 42), (''name'', PStr ''Bob'')]))
   \<and> SyncEngine_resolve_conflict (\<lambda>s. None) (\<lambda>v. []) ''manual''
        [(''id'', PInt 42), (''name'', PStr ''Ann'')] [(''id'', PInt 42), (''name'', PStr ''Bob'')]
       = Inr (''skip'', [])
   \<and> SyncEngine_sync_key (memory_engine_db users_columns) (example_engine_config ''bidirectional'' ''manual'')
        users_mapping [(PInt 42, [(''id'', PInt 42), (''name'', PStr ''Ann'')])]
        [(PInt 42, [(''id'', PInt 42), (''name'', PStr ''Bob'')])] (PInt 42)
        ((two_tables, exported_users), zero_stats)
       = ((two_tables, exported_users), zero_stats\<lparr>conflicts := 1\<rparr>)"
proof -
  have 1: "''manual'' \<notin> {''source_wins'', ''target_wins'', ''latest_wins''}" by simp
  have 2: "cfg_conflict_resolution (example_engine_config ''bidirectional'' ''manual'') = ''manual''"
    by (simp add: example_engine_config_def)
  have 3: "[(''id'', PInt 42), (''name'', PStr ''Ann'')] \<noteq> []" by simp
  have 4: "[(''id'', PInt 42), (''name'', PStr ''Bob'')] \<noteq> []" by simp
  have 5: "\<not> dict_eq
        (without_sync_metadata (SyncEngine_normalize_doc (example_engine_config ''bidirectional'' ''manual'')
           [(''id'', PInt 42), (''name'', PStr ''Ann'')]))
        (without_sync_metadata (SyncEngine_normalize_doc (example_engine_config ''bidirectional'' ''manual'')
           [(''id'', PInt 42), (''name'', PStr ''Bob'')]))"
    by (simp add: dict_eq_def without_sync_metadata_def SyncEngine_normalize_doc_def dict_set_def
          SYNC_METADATA_FIELD_def)
  have 6: "map_of [(PInt 42, [(''id'', PInt 42), (''name'', PStr ''Ann'')])] (PInt 42)
             = Some [(''id'', PInt 42), (''name'', PStr ''Ann'')]" by simp
  have 7: "map_of [(PInt 42, [(''id'', PInt 42), (''name'', PStr ''Bob'')])] (PInt 42)
             = Some [(''id'', PInt 42), (''name'', PStr ''Bob'')]" by simp
  from C5_manual_strategy_skips [OF 1 2 3 4 5 6 7, of "\<lambda>s. None" "\<lambda>v. []"
      "memory_engine_db users_columns" users_mapping two_tables exported_users zero_stats]
    1 2 5
  show ?thesis by (simp add: zero_stats_def)
qed

lemma sync_once_loop_append:
  "SyncEngine_sync_once_loop ops cfg (ms1 @ ms2) s
     = Option.bind (SyncEngine_sync_once_loop ops cfg ms1 s) (SyncEngine_sync_once_loop ops cfg ms2)"
proof (induction ms1 arbitrary: s)
  case Nil
  then show ?case by simp
next
  case (Cons m ms1)
  show ?case
    by (cases "SyncEngine_sync_mapping ops cfg m s") (simp_all add: Cons.IH)
qed

lemma sync_once_loop_returns:
  assumes "\<forall>mapping\<in>set mappings. \<forall>s. SyncEngine_sync_mapping_body ops cfg mapping s \<noteq> None"
  shows "SyncEngine_sync_once_loop ops cfg mappings s \<noteq> None"
  using assms
proof (induction mappings arbitrary: s)
  case Nil
  then show ?case by simp
next
  case (Cons mapping mappings)
  have "\<forall>s. SyncEngine_sync_mapping_body ops cfg mapping s \<noteq> None"
    using Cons.prems by (simp del: split_paired_All)
  then have "SyncEngine_sync_mapping_body ops cfg mapping s \<noteq> None" by (rule spec)
  then obtain e db1 stats1 where
    r: "SyncEngine_sync_mapping_body ops cfg mapping s = Some (e, (db1, stats1))"
    by (cases "SyncEngine_sync_mapping_body ops cfg mapping s") auto
  have "\<exists>s1. SyncEngine_sync_mapping ops cfg mapping s = Some s1"
    by (cases e) (simp_all add: SyncEngine_sync_mapping_def r)
  then obtain s1 where s1: "SyncEngine_sync_mapping ops cfg mapping s = Some s1" by blast
  have rest: "\<forall>mapping\<in>set mappings. \<forall>s. SyncEngine_sync_mapping_body ops cfg mapping s \<noteq> None"
    using Cons.prems by (simp del: split_paired_All)
  show ?case using Cons.IH [OF rest, of s1] s1 by simp
qed

text \<open>
  C4 (as amended): in \<open>sync_once\<close> of the baseline engine an exception raised while a
  mapping is processed is caught at that mapping, counted in the cycle's error counter,
  and the remaining mappings are processed from the state it left; the loop over a list
  of mappings is the loop over its first part followed by the loop over the rest, and
  \<open>sync_once\<close> returns whenever the processing of every mapping returns. In \<open>sync_all\<close> of
  the sequential engine an exception raised inside the \<open>try\<close> of \<open>sync_table\<close> is recorded
  in that table's \<open>errors\<close> and the remaining tables are processed. In \<open>sync\<close> of
  datasync/datasync/sync.py the exception is raised again and leaves \<open>sync\<close>: the remaining
  mappings are not processed.
\<close>

theorem C4_mapping_failure_contained:
  "(SyncEngine_sync_mapping_body ops cfg mapping s = Some (Some e, (db_e, stats_e)) \<longrightarrow>
      SyncEngine_sync_once_loop ops cfg (mapping # rest) s
        = SyncEngine_sync_once_loop ops cfg rest (db_e, stats_e\<lparr>errors_count := errors_count stats_e + 1\<rparr>))
   \<and> SyncEngine_sync_once_loop ops cfg (msa @ msb) s
        = Option.bind (SyncEngine_sync_once_loop ops cfg msa s) (SyncEngine_sync_once_loop ops cfg msb)
   \<and> ((\<forall>mapping\<in>set mappings. \<forall>s. SyncEngine_sync_mapping_body ops cfg mapping s \<noteq> None) \<longrightarrow>
        SyncEngine_sync_once ops cfg mappings db \<noteq> None)
   \<and> (seq_get_primary_key sops (fst sdb) tbl = Inr pk
        \<and> SeqSyncEngine_sync_table_body sops scfg tbl pk (sdb, empty_result) = Some (Some e, (sdb_e, r_e)) \<longrightarrow>
        SeqSyncEngine_sync_all_loop sops scfg (tbl # tables) (results, sdb)
          = SeqSyncEngine_sync_all_loop sops scfg tables
              (AList.update tbl
                 (r_e\<lparr>result_errors := result_errors r_e @ [''Error syncing '' @ tbl @ '': '' @ exn_str e]\<rparr>)
                 results, sdb_e))
   \<and> (map_of pm ''postgres_table'' = Some pg_table \<and> map_of pm ''mongo_collection'' = Some coll
        \<and> PkgDataSync_sync_mapping_body pops pcfg pg_table coll (pdb, \<lparr>synced = 0, table_errors = 0\<rparr>)
            = Some (Some e, (pdb_e, ts_e)) \<longrightarrow>
        PkgDataSync_sync_loop pops pcfg (pm # pms) (pdb, pstats) = Some (Some e, pdb_e, pstats))"
proof -
  have a: "SyncEngine_sync_mapping_body ops cfg mapping s = Some (Some e, (db_e, stats_e)) \<longrightarrow>
      SyncEngine_sync_once_loop ops cfg (mapping # rest) s
        = SyncEngine_sync_once_loop ops cfg rest (db_e, stats_e\<lparr>errors_count := errors_count stats_e + 1\<rparr>)"
    by (simp add: SyncEngine_sync_mapping_def)
  have b: "SyncEngine_sync_once_loop ops cfg (msa @ msb) s
        = Option.bind (SyncEngine_sync_once_loop ops cfg msa s) (SyncEngine_sync_once_loop ops cfg msb)"
    by (rule sync_once_loop_append)
  have c: "(\<forall>mapping\<in>set mappings. \<forall>s. SyncEngine_sync_mapping_body ops cfg mapping s \<noteq> None) \<longrightarrow>
        SyncEngine_sync_once ops cfg mappings db \<noteq> None"
    unfolding SyncEngine_sync_once_def by (rule impI) (rule sync_once_loop_returns)
  have d: "seq_get_primary_key sops (fst sdb) tbl = Inr pk
        \<and> SeqSyncEngine_sync_table_body sops scfg tbl pk (sdb, empty_result) = Some (Some e, (sdb_e, r_e)) \<longrightarrow>
        SeqSyncEngine_sync_all_loop sops scfg (tbl # tables) (results, sdb)
          = SeqSyncEngine_sync_all_loop sops scfg tables
              (AList.update tbl
                 (r_e\<lparr>result_errors := result_errors r_e @ [''Error syncing '' @ tbl @ '': '' @ exn_str e]\<rparr>)
                 results, sdb_e)"
    by (simp add: SeqSyncEngine_sync_table_def empty_result_def)
  have e: "map_of pm ''postgres_table'' = Some pg_table \<and> map_of pm ''mongo_collection'' = Some coll
        \<and> PkgDataSync_sync_mapping_body pops pcfg pg_table coll (pdb, \<lparr>synced = 0, table_errors = 0\<rparr>)
            = Some (Some e, (pdb_e, ts_e)) \<longrightarrow>
        PkgDataSync_sync_loop pops pcfg (pm # pms) (pdb, pstats) = Some (Some e, pdb_e, pstats)"
    by simp
  from a b c d e show ?thesis by (intro conjI)
qed

theorem C4_mapping_failure_contained_witness:
  "SyncEngine_sync_mapping_body (memory_engine_db users_columns)
       (example_engine_config ''bidirectional'' ''latest_wins'') orders_mapping
       ((two_tables, no_rows), zero_stats)
     = Some (Some (KeyError ''id''), ((two_tables, no_rows), zero_stats))
   \<and> SyncEngine_sync_once_loop (memory_engine_db users_columns)
       (example_engine_config ''bidirectional'' ''latest_wins'') [orders_mapping, users_mapping]
       ((two_tables, no_rows), zero_stats)
     = SyncEngine_sync_once_loop (memory_engine_db users_columns)
       (example_engine_config ''bidirectional'' ''latest_wins'') [users_mapping]
       ((two_tables, no_rows), zero_stats\<lparr>errors_count := errors_count zero_stats + 1\<rparr>)
   \<and> cycle_outcome (SyncEngine_sync_once (memory_engine_db users_columns)
       (example_engine_config ''bidirectional'' ''latest_wins'') [orders_mapping, users_mapping]
       (two_tables, no_rows))
     = Some ([[(''id'', PInt 1), (''name'', PStr ''Ann''), (''_sync_updated_at'', PDatetime (Aware 9))]],
             \<lparr>pg_to_mongo = 1, mongo_to_pg = 0, conflicts = 0, errors_count = 1\<rparr>)
   \<and> SyncEngine_sync_once (memory_engine_db users_columns)
       (example_engine_config ''bidirectional'' ''latest_wins'') [orders_mapping, users_mapping]
       (two_tables, no_rows) \<noteq> None
   \<and> seq_get_primary_key memory_seq_db (fst (two_tables, no_rows)) ''users'' = Inr ''id''
   \<and> SeqSyncEngine_sync_table_body memory_seq_db negative_batch_config ''users'' ''id''
       ((two_tables, no_rows), empty_result)
     = Some (Some (StoreError ''LIMIT and OFFSET must not be negative''), ((two_tables, no_rows), empty_result))
   \<and> SeqSyncEngine_sync_all_loop memory_seq_db negative_batch_config [''users'', ''orders'']
       ([], (two_tables, no_rows))
     = Some (Inr ([(''users'', empty_result\<lparr>result_errors :=
                      [''Error syncing users: LIMIT and OFFSET must not be negative'']\<rparr>),
                   (''orders'', empty_result\<lparr>result_errors :=
                      [''Error syncing orders: LIMIT and OFFSET must not be negative'']\<rparr>)],
                  (two_tables, no_rows)))
   \<and> PkgDataSync_sync_mapping_body memory_pkg_db example_pkg_config ''orders'' ''orders''
       ((two_tables, no_rows), \<lparr>synced = 0, table_errors = 0\<rparr>)
     = Some (Some (StoreError ''column id does not exist''),
             ((two_tables, no_rows), \<lparr>synced = 0, table_errors = 0\<rparr>))
   \<and> PkgDataSync_sync_loop memory_pkg_db example_pkg_config two_mappings
       ((two_tables, no_rows), \<lparr>stats_tables = [], total_synced = 0\<rparr>)
     = Some (Some (StoreError ''column id does not exist''), (two_tables, no_rows),
             \<lparr>stats_tables = [], total_synced = 0\<rparr>)"
proof -
  let ?ops = "memory_engine_db users_columns"
  let ?cfg = "example_engine_config ''bidirectional'' ''latest_wins''"
  have a: "SyncEngine_sync_mapping_body ?ops ?cfg orders_mapping ((two_tables, no_rows), zero_stats)
     = Some (Some (KeyError ''id''), ((two_tables, no_rows), zero_stats))"
    by (simp add: SyncEngine_sync_mapping_body_def SyncEngine_sync_bidirectional_def
          example_engine_config_def memory_engine_db_def orders_mapping_def two_tables_def dict_item_def)
  have d: "\<forall>mapping\<in>set [orders_mapping, users_mapping].
             \<forall>s. SyncEngine_sync_mapping_body ?ops ?cfg mapping s \<noteq> None"
    by (simp add: SyncEngine_sync_mapping_body_def example_engine_config_def)
  have u: "cycle_outcome (SyncEngine_sync_once_loop ?ops ?cfg [users_mapping]
             ((two_tables, no_rows), zero_stats\<lparr>errors_count := errors_count zero_stats + 1\<rparr>))
     = Some ([[(''id'', PInt 1), (''name'', PStr ''Ann''), (''_sync_updated_at'', PDatetime (Aware 9))]],
             \<lparr>pg_to_mongo = 1, mongo_to_pg = 0, conflicts = 0, errors_count = 1\<rparr>)"
    by (simp add: cycle_outcome_def SyncEngine_sync_mapping_def SyncEngine_sync_mapping_body_def
          SyncEngine_sync_bidirectional_def SyncEngine_sync_key_def SyncEngine_sync_key_body_def
          example_engine_config_def memory_engine_db_def users_mapping_def two_tables_def no_rows_def
          zero_stats_def dict_item_def dict_truthy_def dict_of_def SyncEngine_normalize_doc_def dict_set_def
          dict_get_def SYNC_METADATA_FIELD_def Let_def)
  have s1: "seq_get_primary_key memory_seq_db (fst (two_tables, no_rows)) ''users'' = Inr ''id''"
    and s2: "seq_get_primary_key memory_seq_db (fst (two_tables, no_rows)) ''orders'' = Inr ''id''"
    by (simp_all add: memory_seq_db_def)
  have t: "\<And>tbl. SeqSyncEngine_sync_table_body memory_seq_db negative_batch_config tbl ''id''
       ((two_tables, no_rows), empty_result)
     = Some (Some (StoreError ''LIMIT and OFFSET must not be negative''), ((two_tables, no_rows), empty_result))"
    by (simp add: SeqSyncEngine_sync_table_body_def SeqSyncEngine_sync_postgres_to_mongo_def
          paged_loop.simps memory_seq_db_def negative_batch_config_def)
  have m: "map_of (hd two_mappings) ''postgres_table'' = Some ''orders''"
      "map_of (hd two_mappings) ''mongo_collection'' = Some ''orders''"
      "two_mappings = hd two_mappings # tl two_mappings"
    by (simp_all add: two_mappings_def)
  have k: "PkgDataSync_sync_mapping_body memory_pkg_db example_pkg_config ''orders'' ''orders''
       ((two_tables, no_rows), \<lparr>synced = 0, table_errors = 0\<rparr>)
     = Some (Some (StoreError ''column id does not exist''),
             ((two_tables, no_rows), \<lparr>synced = 0, table_errors = 0\<rparr>))"
    by (simp add: PkgDataSync_sync_mapping_body_def paged_loop.simps memory_pkg_db_def
          example_pkg_config_def two_tables_def dict_has_def)
  note A = C4_mapping_failure_contained [where ops = ?ops and cfg = ?cfg and mapping = orders_mapping
      and s = "((two_tables, no_rows), zero_stats)" and e = "KeyError ''id''"
      and db_e = "(two_tables, no_rows)" and stats_e = zero_stats and rest = "[users_mapping]"
      and mappings = "[orders_mapping, users_mapping]" and db = "(two_tables, no_rows)"]
  note Du = C4_mapping_failure_contained [where sops = memory_seq_db and scfg = negative_batch_config
      and sdb = "(two_tables, no_rows)" and pk = "''id''"
      and e = "StoreError ''LIMIT and OFFSET must not be negative''"
      and sdb_e = "(two_tables, no_rows)" and r_e = empty_result
      and tbl = "''users''" and tables = "[''orders'']" and results = "[]",
      THEN conjunct2, THEN conjunct2, THEN conjunct2, THEN conjunct1, THEN mp]
  note Do = C4_mapping_failure_contained [where sops = memory_seq_db and scfg = negative_batch_config
      and sdb = "(two_tables, no_rows)" and pk = "''id''"
      and e = "StoreError ''LIMIT and OFFSET must not be negative''"
      and sdb_e = "(two_tables, no_rows)" and r_e = empty_result
      and tbl = "''orders''" and tables = "[]",
      THEN conjunct2, THEN conjunct2, THEN conjunct2, THEN conjunct1, THEN mp]
  note P = C4_mapping_failure_contained [where pops = memory_pkg_db and pcfg = example_pkg_config
      and pm = "hd two_mappings" and pms = "tl two_mappings" and pg_table = "''orders''"
      and coll = "''orders''" and pdb = "(two_tables, no_rows)" and pdb_e = "(two_tables, no_rows)"
      and e = "StoreError ''column id does not exist''" and ts_e = "\<lparr>synced = 0, table_errors = 0\<rparr>"
      and pstats = "\<lparr>stats_tables = [], total_synced = 0\<rparr>"]
  have a2: "SyncEngine_sync_once_loop ?ops ?cfg [orders_mapping, users_mapping]
       ((two_tables, no_rows), zero_stats)
     = SyncEngine_sync_once_loop ?ops ?cfg [users_mapping]
       ((two_tables, no_rows), zero_stats\<lparr>errors_count := errors_count zero_stats + 1\<rparr>)"
    by (rule A [THEN conjunct1, THEN mp, OF a])
  have o: "SyncEngine_sync_once ?ops ?cfg [orders_mapping, users_mapping] (two_tables, no_rows)
     = SyncEngine_sync_once_loop ?ops ?cfg [orders_mapping, users_mapping]
         ((two_tables, no_rows), zero_stats)"
    unfolding SyncEngine_sync_once_def zero_stats_def by (rule refl)
  have a3: "cycle_outcome (SyncEngine_sync_once ?ops ?cfg [orders_mapping, users_mapping]
       (two_tables, no_rows))
     = Some ([[(''id'', PInt 1), (''name'', PStr ''Ann''), (''_sync_updated_at'', PDatetime (Aware 9))]],
             \<lparr>pg_to_mongo = 1, mongo_to_pg = 0, conflicts = 0, errors_count = 1\<rparr>)"
    by (simp only: o a2 u)
  have a4: "SyncEngine_sync_once ?ops ?cfg [orders_mapping, users_mapping] (two_tables, no_rows) \<noteq> None"
    by (rule A [THEN conjunct2, THEN conjunct2, THEN conjunct1, THEN mp, OF d])
  let ?ru = "empty_result\<lparr>result_errors := result_errors empty_result
               @ [''Error syncing '' @ ''users'' @ '': ''
                    @ exn_str (StoreError ''LIMIT and OFFSET must not be negative'')]\<rparr>"
  let ?ro = "empty_result\<lparr>result_errors := result_errors empty_result
               @ [''Error syncing '' @ ''orders'' @ '': ''
                    @ exn_str (StoreError ''LIMIT and OFFSET must not be negative'')]\<rparr>"
  have d1: "SeqSyncEngine_sync_all_loop memory_seq_db negative_batch_config [''users'', ''orders'']
       ([], (two_tables, no_rows))
     = SeqSyncEngine_sync_all_loop memory_seq_db negative_batch_config [''orders'']
         (AList.update ''users'' ?ru [], (two_tables, no_rows))"
    by (rule Du [OF conjI [OF s1 t [of "''users''"]]])
  have d2: "SeqSyncEngine_sync_all_loop memory_seq_db negative_batch_config [''orders'']
         (AList.update ''users'' ?ru [], (two_tables, no_rows))
     = SeqSyncEngine_sync_all_loop memory_seq_db negative_batch_config []
         (AList.update ''orders'' ?ro (AList.update ''users'' ?ru []), (two_tables, no_rows))"
    by (rule Do [OF conjI [OF s2 t [of "''orders''"]]])
  have d3: "SeqSyncEngine_sync_all_loop memory_seq_db negative_batch_config [''users'', ''orders'']
       ([], (two_tables, no_rows))
     = Some (Inr ([(''users'', empty_result\<lparr>result_errors :=
                      [''Error syncing users: LIMIT and OFFSET must not be negative'']\<rparr>),
                   (''orders'', empty_result\<lparr>result_errors :=
                      [''Error syncing orders: LIMIT and OFFSET must not be negative'']\<rparr>)],
                  (two_tables, no_rows)))"
    unfolding d1 d2 by (simp add: empty_result_def)
  have p0: "PkgDataSync_sync_loop memory_pkg_db example_pkg_config (hd two_mappings # tl two_mappings)
       ((two_tables, no_rows), \<lparr>stats_tables = [], total_synced = 0\<rparr>)
     = Some (Some (StoreError ''column id does not exist''), (two_tables, no_rows),
             \<lparr>stats_tables = [], total_synced = 0\<rparr>)"
    by (rule P [THEN conjunct2, THEN conjunct2, THEN conjunct2, THEN conjunct2, THEN mp,
                OF conjI [OF m(1) conjI [OF m(2) k]]])
  have p1: "PkgDataSync_sync_loop memory_pkg_db example_pkg_config two_mappings
       ((two_tables, no_rows), \<lparr>stats_tables = [], total_synced = 0\<rparr>)
     = Some (Some (StoreError ''column id does not exist''), (two_tables, no_rows),
             \<lparr>stats_tables = [], total_synced = 0\<rparr>)"
    using p0 m(3) by simp
  show ?thesis
    by (intro conjI) (rule a a2 a3 a4 s1 t d3 k p1)+
qed

text \<open>
  C4 as stated fails for \<open>DataSync.sync\<close> of datasync/datasync/sync.py: with the mappings
  \<open>orders\<close> (a table without the column \<open>id\<close>, so its \<open>SELECT\<close> fails) and \<open>users\<close>, the
  exception of the first mapping leaves \<open>sync\<close>; the collection \<open>users\<close> stays empty and no
  statistics are returned for either table.
\<close>

theorem C4_reraise_aborts_cycle_counterexample:
  "pkg_outcome (PkgDataSync_sync memory_pkg_db example_pkg_config two_mappings (two_tables, no_rows))
     = Some (Some (StoreError ''column id does not exist''), [], [], 0)"
  by (simp add: pkg_outcome_def PkgDataSync_sync_def PkgDataSync_sync_mapping_body_def paged_loop.simps
        memory_pkg_db_def example_pkg_config_def two_mappings_def two_tables_def no_rows_def dict_has_def)

end
